theory Spec2Isabelle
  imports Complex_Main
begin

section \<open>Errors and results\<close>

text \<open>
  Every Python exception the modelled code can raise is a value; a function that may
  raise returns \<open>error + 'a\<close> with \<open>Inl\<close> carrying the exception. The string of an
  exception is its message; that of an \<open>ImportError\<close> is the name that could not be
  imported.
\<close>

datatype error =
    NotImplementedError string
  | ValueError string
  | AssertionError
  | TypeError string
  | ZeroDivisionError
  | IndexError
  | AttributeError string
  | LinAlgError
  | ImportError string

definition bind_err :: "error + 'a \<Rightarrow> ('a \<Rightarrow> error + 'b) \<Rightarrow> error + 'b" where
  "bind_err m f = (case m of Inl e \<Rightarrow> Inl e | Inr x \<Rightarrow> f x)"

text \<open>Whether a result is an exception, and whether it is a \<open>NotImplementedError\<close>.\<close>

definition raises :: "error + 'a \<Rightarrow> bool" where
  "raises r = (case r of Inl _ \<Rightarrow> True | Inr _ \<Rightarrow> False)"

definition is_not_implemented :: "error + 'a \<Rightarrow> bool" where
  "is_not_implemented r = (case r of Inl (NotImplementedError _) \<Rightarrow> True | _ \<Rightarrow> False)"

text \<open>Running a fallible function over a list stops at the first exception.\<close>

fun map_err :: "('a \<Rightarrow> error + 'b) \<Rightarrow> 'a list \<Rightarrow> error + 'b list" where
  "map_err f [] = Inr []"
| "map_err f (x # xs) =
     (case f x of Inl e \<Rightarrow> Inl e
      | Inr y \<Rightarrow> (case map_err f xs of Inl e \<Rightarrow> Inl e | Inr ys \<Rightarrow> Inr (y # ys)))"

section \<open>Discretization descriptors\<close>

text \<open>
  Modelled from the spec: the module \<open>grudge.dof_desc\<close> is not part of the sources.
  A descriptor is a value of a domain tag (volume, a boundary tag, interior faces, all
  faces; the sources also use the scalar descriptor \<open>DD_SCALAR\<close> and test the domain
  tag against \<open>None\<close>) and a discretization tag (base or a named quadrature tag). Two
  descriptors are equal iff domain and tag both match exactly.
\<close>

datatype domain_tag =
    DTAG_SCALAR
  | DTAG_VOLUME_ALL
  | DTAG_BOUNDARY string
  | FACE_RESTR_INTERIOR
  | FACE_RESTR_ALL

datatype discr_tag = DISCR_TAG_BASE | DISCR_TAG_QUAD string

datatype DOFDesc =
  DOFDesc (domain_tag: "domain_tag option") (discretization_tag: discr_tag)

definition DD_VOLUME :: DOFDesc where
  "DD_VOLUME = DOFDesc (Some DTAG_VOLUME_ALL) DISCR_TAG_BASE"

text \<open>
  Modelled from the spec: the values convertible to a descriptor are a descriptor
  itself, \<open>None\<close>, a domain tag, and the strings naming a domain.
\<close>

datatype dd_arg = OfDesc DOFDesc | OfNone | OfDomain domain_tag | OfName string

definition as_dofdesc :: "dd_arg \<Rightarrow> error + DOFDesc" where
  "as_dofdesc dd =
     (case dd of
        OfDesc d \<Rightarrow> Inr d
      | OfNone \<Rightarrow> Inr (DOFDesc None DISCR_TAG_BASE)
      | OfDomain t \<Rightarrow> Inr (DOFDesc (Some t) DISCR_TAG_BASE)
      | OfName s \<Rightarrow>
          (if s = ''vol'' then Inr (DOFDesc (Some DTAG_VOLUME_ALL) DISCR_TAG_BASE)
           else if s = ''all_faces'' then Inr (DOFDesc (Some FACE_RESTR_ALL) DISCR_TAG_BASE)
           else if s = ''int_faces'' then Inr (DOFDesc (Some FACE_RESTR_INTERIOR) DISCR_TAG_BASE)
           else if s = ''scalar'' then Inr (DOFDesc (Some DTAG_SCALAR) DISCR_TAG_BASE)
           else Inl (ValueError (''domain tag not understood: '' @ s))))"

definition is_scalar :: "DOFDesc \<Rightarrow> bool" where
  "is_scalar dd = (domain_tag dd = Some DTAG_SCALAR)"

definition is_discretized :: "DOFDesc \<Rightarrow> bool" where
  "is_discretized dd = (\<not> is_scalar dd)"

definition is_trace :: "DOFDesc \<Rightarrow> bool" where
  "is_trace dd =
     (case domain_tag dd of
        Some (DTAG_BOUNDARY _) \<Rightarrow> True
      | Some FACE_RESTR_ALL \<Rightarrow> True
      | Some FACE_RESTR_INTERIOR \<Rightarrow> True
      | _ \<Rightarrow> False)"

definition uses_quadrature :: "DOFDesc \<Rightarrow> bool" where
  "uses_quadrature dd = (discretization_tag dd \<noteq> DISCR_TAG_BASE)"

definition with_discr_tag :: "DOFDesc \<Rightarrow> discr_tag \<Rightarrow> DOFDesc" where
  "with_discr_tag dd t = DOFDesc (domain_tag dd) t"

section \<open>Fields and the discretization collection\<close>

text \<open>
  A \<open>DOFArray\<close> holds one array per element group, of shape (elements, nodes). A field
  handed to the operators is a \<open>DOFArray\<close>, a number, or a numpy object array of
  fields.
\<close>

type_synonym grp_array = "real list list"
type_synonym DOFArray = "grp_array list"

datatype field = ObjArray "field list" | Number real | DOFArr DOFArray

section \<open>Element groups and discretizations\<close>

text \<open>
  An array of nodes of shape (dim, n) is the list of its n columns, each node the list
  of its coordinates: iterating \<open>zip(*nodes)\<close> yields this list, and concatenating
  node arrays along axis 1 appends the lists. A matrix is the list of its rows.
\<close>

type_synonym node = "real list"
type_synonym matrix = "real list list"

text \<open>
  The attributes of an element group that the modelled functions read: whether it is
  an instance of \<open>SimplexElementGroupBase\<close>, its order, unit nodes and element count,
  of its mesh element group the unit coordinates of the vertices and the number of
  faces, the functions of its basis, the faces of its reference shape (each by its
  \<open>map_to_volume\<close> on one node) and the nodes of its quadrature rule.
\<close>

record ElementGroup =
  is_simplex :: bool
  order :: nat
  unit_nodes :: "node list"
  nelements :: nat
  vertex_unit_coordinates :: "node list"
  nfaces :: nat
  basis_functions :: "(node \<Rightarrow> real) list"
  shape_faces :: "(node \<Rightarrow> node) list"
  quadrature_nodes :: "node list"

definition nunit_dofs :: "ElementGroup \<Rightarrow> nat" where
  "nunit_dofs grp = length (unit_nodes grp)"

record Discretization =
  groups :: "ElementGroup list"
  discr_dim :: nat
  discr_ambient_dim :: nat

text \<open>\<open>discr.zeros(actx) + 1.0\<close>: per group an array of shape (elements, nodes) of ones.\<close>

definition ones :: "Discretization \<Rightarrow> DOFArray" where
  "ones discr = map (\<lambda>grp. replicate (nelements grp) (replicate (nunit_dofs grp) 1)) (groups discr)"

text \<open>
  The collection is an external collaborator of the modelled functions. They read its
  dimension, its discretizations by descriptor, the connection between two descriptors
  (applied to a \<open>DOFArray\<close>), the thawed normals of a trace discretization (which may
  raise, as the connection may), and, through \<open>grudge.op\<close> and \<open>grudge.geometry\<close>, the
  elementwise integral of a \<open>DOFArray\<close> and the area element on a descriptor.
\<close>

record DiscretizationCollection =
  dim :: nat
  discr_from_dd :: "DOFDesc \<Rightarrow> Discretization"
  connection_from_dds :: "DOFDesc \<Rightarrow> DOFDesc \<Rightarrow> DOFArray \<Rightarrow> error + DOFArray"
  normal :: "DOFDesc \<Rightarrow> error + field"
  elementwise_integral :: "DOFDesc \<Rightarrow> DOFArray \<Rightarrow> DOFArray"
  area_element :: "DOFDesc \<Rightarrow> DOFArray"

datatype ArrayContext = ArrayContext

section \<open>Projection (grudge/projection.py)\<close>

text \<open>
  The log records every request for a connection, in order, so that a run that never
  touches the connection machinery leaves it unchanged.
\<close>

type_synonym conn_log = "(DOFDesc \<times> DOFDesc) list"

fun project_dd ::
  "DiscretizationCollection \<Rightarrow> DOFDesc \<Rightarrow> DOFDesc \<Rightarrow> field \<Rightarrow> conn_log
     \<Rightarrow> (error + field) \<times> conn_log"
and project_els ::
  "DiscretizationCollection \<Rightarrow> DOFDesc \<Rightarrow> DOFDesc \<Rightarrow> field list \<Rightarrow> conn_log
     \<Rightarrow> (error + field list) \<times> conn_log"
where
  "project_dd dcoll src tgt (ObjArray els) lg =
     (if src = tgt then (Inr (ObjArray els), lg)
      else (case project_els dcoll src tgt els lg of
              (Inl e, lg') \<Rightarrow> (Inl e, lg')
            | (Inr rs, lg') \<Rightarrow> (Inr (ObjArray rs), lg')))"
| "project_dd dcoll src tgt (Number x) lg =
     (if src = tgt then (Inr (Number x), lg) else (Inr (Number x), lg))"
| "project_dd dcoll src tgt (DOFArr a) lg =
     (if src = tgt then (Inr (DOFArr a), lg)
      else (case connection_from_dds dcoll src tgt a of
              Inl e \<Rightarrow> (Inl e, lg @ [(src, tgt)])
            | Inr r \<Rightarrow> (Inr (DOFArr r), lg @ [(src, tgt)])))"
| "project_els dcoll src tgt [] lg = (Inr [], lg)"
| "project_els dcoll src tgt (v # vs) lg =
     (case project_dd dcoll src tgt v lg of
        (Inl e, lg') \<Rightarrow> (Inl e, lg')
      | (Inr r, lg') \<Rightarrow>
          (case project_els dcoll src tgt vs lg' of
             (Inl e, lg'') \<Rightarrow> (Inl e, lg'')
           | (Inr rs, lg'') \<Rightarrow> (Inr (r # rs), lg'')))"

text \<open>
  \<open>project\<close> converts both descriptors first; the elementwise recursion calls it again
  on the converted descriptors, where the conversion is the identity.
\<close>

definition project ::
  "DiscretizationCollection \<Rightarrow> dd_arg \<Rightarrow> dd_arg \<Rightarrow> field \<Rightarrow> conn_log
     \<Rightarrow> (error + field) \<times> conn_log" where
  "project dcoll src tgt vec lg =
     (case as_dofdesc src of
        Inl e \<Rightarrow> (Inl e, lg)
      | Inr s \<Rightarrow>
          (case as_dofdesc tgt of
             Inl e \<Rightarrow> (Inl e, lg)
           | Inr t \<Rightarrow> project_dd dcoll s t vec lg))"

section \<open>Strings\<close>

text \<open>
  Python's \<open>str.lower\<close> on the code points below 256: the ASCII capitals and the
  Latin-1 capitals (all of 192..222 but the multiplication sign 215) move up by 32.
\<close>

definition lower_char :: "char \<Rightarrow> char" where
  "lower_char c =
     (let n = (of_char c :: nat)
      in if (65 \<le> n \<and> n \<le> 90) \<or> (192 \<le> n \<and> n \<le> 222 \<and> n \<noteq> 215)
         then char_of (n + 32) else c)"

definition lower :: "string \<Rightarrow> string" where
  "lower s = map lower_char s"

text \<open>Decimal formatting of an integer, as \<open>%d\<close> and an f-string do.\<close>

fun str_nat :: "nat \<Rightarrow> string" where
  "str_nat n =
     (if n < 10 then [''0123456789'' ! n]
      else str_nat (n div 10) @ [''0123456789'' ! (n mod 10)])"

definition str_int :: "int \<Rightarrow> string" where
  "str_int i = (if i < 0 then CHR ''-'' # str_nat (nat (- i)) else str_nat (nat i))"

section \<open>Arithmetic on fields\<close>

text \<open>
  The arithmetic of numbers, \<open>DOFArray\<close>s and object arrays is that of Python, numpy
  and meshmode, none of which is part of the sources. Every operation is a parameter,
  and every operation may raise: numpy raises \<open>ValueError\<close> on operands that do not
  broadcast and \<open>TypeError\<close> on operands it cannot combine. A Python number is the
  field \<open>Number\<close>, so \<open>0.5 * x\<close> is \<open>np_mul\<close> applied to \<open>Number (1/2)\<close> and \<open>x\<close>.
  So is \<open>thaw\<close> of \<open>meshmode.dof_array\<close>, which \<open>burgers_numerical_flux\<close> calls with
  the array context first and \<open>WeakWaveOperator.flux\<close> with the array first.
\<close>

datatype thaw_arg = ActxArg ArrayContext | AryArg field

record ArrayLibrary =
  np_add :: "field \<Rightarrow> field \<Rightarrow> error + field"
  np_sub :: "field \<Rightarrow> field \<Rightarrow> error + field"
  np_mul :: "field \<Rightarrow> field \<Rightarrow> error + field"
  np_pow :: "field \<Rightarrow> nat \<Rightarrow> error + field"
  np_dot :: "field \<Rightarrow> field \<Rightarrow> error + field"
  thaw :: "thaw_arg \<Rightarrow> thaw_arg \<Rightarrow> error + field"

text \<open>\<open>flat_obj_array\<close> puts its arguments, object arrays flattened, into one object array.\<close>

definition flat_entries :: "field \<Rightarrow> field list" where
  "flat_entries x = (case x of ObjArray xs \<Rightarrow> xs | _ \<Rightarrow> [x])"

definition flat_obj_array :: "field \<Rightarrow> field \<Rightarrow> field" where
  "flat_obj_array a b = ObjArray (flat_entries a @ flat_entries b)"

text \<open>
  The attribute \<open>array_context\<close> exists on a \<open>DOFArray\<close>; reading it from a number or
  from an object array raises \<open>AttributeError\<close>.
\<close>

definition array_context :: "field \<Rightarrow> error + ArrayContext" where
  "array_context x =
     (case x of DOFArr _ \<Rightarrow> Inr ArrayContext | _ \<Rightarrow> Inl (AttributeError ''array_context''))"

section \<open>Trace pairs\<close>

text \<open>
  Modelled from the spec: the class \<open>TracePair\<close> of \<open>grudge.trace_pair\<close> is not part
  of the sources. A trace pair is the structural pairing of a descriptor with an
  interior and an exterior value on the same face discretization; arithmetic acts on
  the interior value, then on the exterior value; \<open>avg\<close> is \<open>0.5 * (int + ext)\<close> and
  \<open>diff\<close> is \<open>ext - int\<close>.
\<close>

record TracePair =
  tp_dd :: DOFDesc
  interior :: field
  exterior :: field

definition tp_pow :: "ArrayLibrary \<Rightarrow> TracePair \<Rightarrow> nat \<Rightarrow> error + TracePair" where
  "tp_pow ar tp n =
     bind_err (np_pow ar (interior tp) n)
       (\<lambda>i. bind_err (np_pow ar (exterior tp) n)
          (\<lambda>e. Inr \<lparr>tp_dd = tp_dd tp, interior = i, exterior = e\<rparr>))"

definition tp_rmul :: "ArrayLibrary \<Rightarrow> real \<Rightarrow> TracePair \<Rightarrow> error + TracePair" where
  "tp_rmul ar a tp =
     bind_err (np_mul ar (Number a) (interior tp))
       (\<lambda>i. bind_err (np_mul ar (Number a) (exterior tp))
          (\<lambda>e. Inr \<lparr>tp_dd = tp_dd tp, interior = i, exterior = e\<rparr>))"

definition tp_avg :: "ArrayLibrary \<Rightarrow> TracePair \<Rightarrow> error + field" where
  "tp_avg ar tp =
     bind_err (np_add ar (interior tp) (exterior tp)) (\<lambda>s. np_mul ar (Number (1/2)) s)"

definition tp_diff :: "ArrayLibrary \<Rightarrow> TracePair \<Rightarrow> error + field" where
  "tp_diff ar tp = np_sub ar (exterior tp) (interior tp)"

text \<open>
  The state of the wave operator is an object array, and so are the two values of its
  trace pair. Indexing such a trace pair indexes the interior value, then the exterior
  value: \<open>tp[0]\<close> raises \<open>IndexError\<close> on an empty array, \<open>tp[1:]\<close> never raises.
\<close>

record ObjTracePair =
  otp_dd :: DOFDesc
  otp_int :: "field list"
  otp_ext :: "field list"

definition tp_first :: "ObjTracePair \<Rightarrow> error + TracePair" where
  "tp_first tp =
     (case otp_int tp of
        [] \<Rightarrow> Inl IndexError
      | i # _ \<Rightarrow>
          (case otp_ext tp of
             [] \<Rightarrow> Inl IndexError
           | e # _ \<Rightarrow> Inr \<lparr>tp_dd = otp_dd tp, interior = i, exterior = e\<rparr>))"

definition tp_rest :: "ObjTracePair \<Rightarrow> TracePair" where
  "tp_rest tp =
     \<lparr>tp_dd = otp_dd tp, interior = ObjArray (tl (otp_int tp)),
      exterior = ObjArray (tl (otp_ext tp))\<rparr>"

section \<open>Burgers' equation (grudge/models/burgers.py)\<close>

text \<open>
  The value \<open>central\<close> of \<open>burgers_numerical_flux\<close>, \<open>(0.5*u_tpair**2).avg * normal\<close>; it
  is computed before the flux type is looked at.
\<close>

definition burgers_central :: "ArrayLibrary \<Rightarrow> TracePair \<Rightarrow> field \<Rightarrow> error + field" where
  "burgers_central ar u_tpair nrm =
     bind_err (tp_pow ar u_tpair 2)
       (\<lambda>sq. bind_err (tp_rmul ar (1/2) sq)
          (\<lambda>half. bind_err (tp_avg ar half)
             (\<lambda>avg. np_mul ar avg nrm)))"

definition burgers_numerical_flux ::
  "ArrayLibrary \<Rightarrow> ArrayContext \<Rightarrow> DiscretizationCollection \<Rightarrow> string \<Rightarrow> TracePair \<Rightarrow> field
     \<Rightarrow> error + field" where
  "burgers_numerical_flux ar actx dcoll num_flux_type u_tpair max_wavespeed =
     (let dd = tp_dd u_tpair
      in bind_err (normal dcoll dd)
           (\<lambda>n. bind_err (thaw ar (ActxArg actx) (AryArg n))
              (\<lambda>nrm.
                 bind_err (fst (project dcoll (OfName ''vol'') (OfDesc dd) max_wavespeed []))
                   (\<lambda>max_wavespeed'.
                      let num_flux_type' = lower num_flux_type
                      in bind_err (burgers_central ar u_tpair nrm)
                           (\<lambda>central.
                              if num_flux_type' = ''central'' then Inr central
                              else if num_flux_type' = ''lf'' then
                                bind_err (np_mul ar (Number (1/2)) max_wavespeed')
                                  (\<lambda>half. bind_err (tp_diff ar u_tpair)
                                     (\<lambda>d. bind_err (np_mul ar half d)
                                        (\<lambda>p. np_sub ar central p)))
                              else Inl (NotImplementedError
                                          (''flux '' @ [CHR 0x27] @ num_flux_type'
                                             @ [CHR 0x27] @ '' is not implemented'')))))))"

record InviscidBurgers =
  ib_actx :: ArrayContext
  ib_dcoll :: DiscretizationCollection
  ib_flux_type :: string

definition flux_types :: "string list" where
  "flux_types = [''central'', ''lf'']"

definition InviscidBurgers_init ::
  "ArrayContext \<Rightarrow> DiscretizationCollection \<Rightarrow> string \<Rightarrow> error + InviscidBurgers" where
  "InviscidBurgers_init actx dcoll flux_type =
     (if flux_type \<notin> set flux_types then
        Inl (NotImplementedError
               (''unknown flux type: '' @ [CHR 0x27] @ flux_type @ [CHR 0x27]))
      else if dim dcoll \<noteq> 1 then
        Inl (NotImplementedError
               (''Burgers operator for dim = '' @ str_nat (dim dcoll) @ '' not implemented''))
      else Inr \<lparr>ib_actx = actx, ib_dcoll = dcoll, ib_flux_type = flux_type\<rparr>)"

section \<open>The wave equation (grudge/models/wave.py)\<close>

text \<open>
  The operator object, with the attributes that \<open>flux\<close> reads; the source term and the
  boundary tags are stored by the constructor and read by \<open>operator\<close> only. The
  attribute \<open>sign\<close> is the integer \<open>1\<close> or \<open>-1\<close>, so \<open>self.c*self.sign\<close> is \<open>c\<close> or \<open>-c\<close>.
\<close>

datatype sign = Plus | Minus

record WeakWaveOperator =
  w_dcoll :: DiscretizationCollection
  w_c :: real
  w_sign :: sign
  w_flux_type :: string

definition WeakWaveOperator_init ::
  "DiscretizationCollection \<Rightarrow> real \<Rightarrow> string \<Rightarrow> WeakWaveOperator" where
  "WeakWaveOperator_init dcoll c flux_type =
     \<lparr>w_dcoll = dcoll, w_c = c, w_sign = (if c > 0 then Plus else Minus),
      w_flux_type = flux_type\<rparr>"

text \<open>
  The value \<open>central_flux_weak\<close> of \<open>flux\<close>; it is computed before the flux type is
  looked at.
\<close>

definition central_flux_weak ::
  "ArrayLibrary \<Rightarrow> real \<Rightarrow> TracePair \<Rightarrow> TracePair \<Rightarrow> field \<Rightarrow> error + field" where
  "central_flux_weak ar c u v nrm =
     bind_err (tp_avg ar v)
       (\<lambda>v_avg. bind_err (np_dot ar v_avg nrm)
          (\<lambda>d. bind_err (tp_avg ar u)
             (\<lambda>u_avg. bind_err (np_mul ar u_avg nrm)
                (\<lambda>m. np_mul ar (Number (- c)) (flat_obj_array d m)))))"

text \<open>The value that \<open>flux\<close> returns for the flux type \<open>upwind\<close>.\<close>

definition upwind_flux ::
  "ArrayLibrary \<Rightarrow> WeakWaveOperator \<Rightarrow> TracePair \<Rightarrow> TracePair \<Rightarrow> field \<Rightarrow> field
     \<Rightarrow> error + field" where
  "upwind_flux ar self u v nrm central =
     bind_err (np_sub ar (exterior u) (interior u))
       (\<lambda>du. bind_err (np_mul ar (Number (1/2)) du)
          (\<lambda>a. bind_err (np_sub ar (exterior v) (interior v))
             (\<lambda>dv. bind_err (np_dot ar nrm dv)
                (\<lambda>nd. bind_err (np_mul ar nrm nd)
                   (\<lambda>nn. bind_err (np_mul ar (Number (1/2)) nn)
                      (\<lambda>b. bind_err
                              (np_mul ar
                                 (Number (case w_sign self of
                                            Plus \<Rightarrow> w_c self | Minus \<Rightarrow> - w_c self))
                                 (flat_obj_array a b))
                              (\<lambda>jump. np_sub ar central jump)))))))"

definition flux :: "ArrayLibrary \<Rightarrow> WeakWaveOperator \<Rightarrow> ObjTracePair \<Rightarrow> error + field" where
  "flux ar self wtpair =
     bind_err (tp_first wtpair)
       (\<lambda>u. let v = tp_rest wtpair
             in bind_err (array_context (interior u))
                  (\<lambda>actx.
                     bind_err (normal (w_dcoll self) (otp_dd wtpair))
                       (\<lambda>n. bind_err (thaw ar (AryArg n) (ActxArg actx))
                          (\<lambda>nrm. bind_err (central_flux_weak ar (w_c self) u v nrm)
                             (\<lambda>central.
                                if w_flux_type self = ''central'' then Inr central
                                else if w_flux_type self = ''upwind'' then
                                  upwind_flux ar self u v nrm central
                                else Inl (ValueError
                                            (''invalid flux type '' @ [CHR 0x27]
                                               @ w_flux_type self @ [CHR 0x27])))))))"

section \<open>Time step estimation (grudge/dt_utils.py)\<close>

definition norm2 :: "real list \<Rightarrow> real" where
  "norm2 v = sqrt (sum_list (map (\<lambda>x. x ^ 2) v))"

definition node_dist :: "node \<Rightarrow> node \<Rightarrow> real" where
  "node_dist a b = norm2 (map2 (-) a b)"

text \<open>
  One group of \<open>dt_non_geometric_factors\<close>. At order 0 the single node is measured
  against the first vertex of the reference element; otherwise the minimum runs over
  all ordered pairs of distinct node indices, and \<open>min\<close> of an empty sequence raises.
\<close>

definition min_delta_r :: "ElementGroup \<Rightarrow> error + real" where
  "min_delta_r grp =
     (let nodes = unit_nodes grp;
          nnodes = nunit_dofs grp
      in if order grp = 0 then
           (if nnodes \<noteq> 1 then Inl AssertionError
            else (case vertex_unit_coordinates grp of
                    [] \<Rightarrow> Inl IndexError
                  | v # _ \<Rightarrow> Inr (node_dist (nodes ! 0) v)))
         else
           (case [node_dist (nodes ! i) (nodes ! j).
                    i \<leftarrow> [0..<nnodes], j \<leftarrow> [0..<nnodes], i \<noteq> j] of
              [] \<Rightarrow> Inl (ValueError ''min() arg is an empty sequence'')
            | d # ds \<Rightarrow> Inr (min_list (d # ds))))"

definition dt_non_geometric_factors ::
  "DiscretizationCollection \<Rightarrow> DOFDesc option \<Rightarrow> error + real list" where
  "dt_non_geometric_factors dcoll dd0 =
     (let dd = (case dd0 of None \<Rightarrow> DD_VOLUME | Some d \<Rightarrow> d);
          discr = discr_from_dd dcoll dd
      in map_err min_delta_r (groups discr))"

definition abs_dof :: "DOFArray \<Rightarrow> DOFArray" where
  "abs_dof a = map (map (map abs)) a"

text \<open>
  \<open>reshape(nf, ne, nj)\<close> of a group array reads its entries in row-major order and
  raises unless the sizes agree; \<open>einsum("fej->e")\<close> sums over the first and the last
  axis.
\<close>

definition reshape3 :: "nat \<Rightarrow> nat \<Rightarrow> nat \<Rightarrow> grp_array \<Rightarrow> error + real list list list" where
  "reshape3 nf ne nj a =
     (let flat = concat a
      in if length flat \<noteq> nf * ne * nj then
           Inl (ValueError ''cannot reshape array'')
         else Inr (map (\<lambda>f. map (\<lambda>e. map (\<lambda>j. flat ! ((f * ne + e) * nj + j)) [0..<nj])
                                 [0..<ne]) [0..<nf]))"

definition einsum_fej_e :: "nat \<Rightarrow> real list list list \<Rightarrow> real list" where
  "einsum_fej_e ne t = map (\<lambda>e. sum_list (map (\<lambda>fa. sum_list (fa ! e)) t)) [0..<ne]"

text \<open>\<open>einsum("e,ei->ei")\<close> scales row e of the second operand by entry e of the first.\<close>

definition einsum_e_ei :: "real list \<Rightarrow> grp_array \<Rightarrow> error + grp_array" where
  "einsum_e_ei s a =
     (if length s \<noteq> length a then Inl (ValueError ''einsum: operands could not be broadcast'')
      else Inr (map2 (\<lambda>x row. map (\<lambda>v. x * v) row) s a))"

text \<open>
  \<open>dt_geometric_factors\<close>. The warning for a discretization that does not fill the
  volume changes no result and is left out. Division is that of the reals; a zero
  surface area, where the source divides by zero, is outside the model.
\<close>

definition dt_geometric_factors ::
  "DiscretizationCollection \<Rightarrow> DOFDesc option \<Rightarrow> error + DOFArray" where
  "dt_geometric_factors dcoll dd0 =
     (let dd = (case dd0 of None \<Rightarrow> DD_VOLUME | Some d \<Rightarrow> d);
          volm_discr = discr_from_dd dcoll dd
      in if list_ex (\<lambda>grp. \<not> is_simplex grp) (groups volm_discr) then
           Inl (NotImplementedError
                  ''Geometric factors are only implemented for simplex element groups'')
         else
           let cell_vols = abs_dof (elementwise_integral dcoll dd (ones volm_discr))
           in if dim dcoll = 1 then Inr cell_vols
              else
                let dd_face = DOFDesc (Some FACE_RESTR_ALL) (discretization_tag dd);
                    face_discr = discr_from_dd dcoll dd_face;
                    surface_areas =
                      abs_dof (elementwise_integral dcoll dd_face (ones face_discr))
                in bind_err
                     (map_err
                        (\<lambda>(vgrp, afgrp, face_ae_i).
                           bind_err
                             (reshape3 (nfaces vgrp) (nelements vgrp) (nunit_dofs afgrp)
                                face_ae_i)
                             (\<lambda>t. Inr (map (\<lambda>x. x / real (nunit_dofs afgrp))
                                           (einsum_fej_e (nelements vgrp) t))))
                        (zip (groups volm_discr) (zip (groups face_discr) surface_areas)))
                     (\<lambda>surface_areas'.
                        map_err
                          (\<lambda>(cv_i, sae_i).
                             bind_err (einsum_e_ei (map (\<lambda>x. 1 / x) sae_i) cv_i)
                               (\<lambda>r. Inr (map (map (\<lambda>x. x * real (dim dcoll))) r)))
                          (zip cell_vols surface_areas')))"

definition characteristic_lengthscales ::
  "ArrayContext \<Rightarrow> DiscretizationCollection \<Rightarrow> error + DOFArray" where
  "characteristic_lengthscales actx dcoll =
     bind_err (dt_non_geometric_factors dcoll None)
       (\<lambda>cngs. bind_err (dt_geometric_factors dcoll None)
          (\<lambda>geo. Inr (map2 (\<lambda>cng geo_facts. map (map (\<lambda>x. cng * x)) geo_facts) cngs geo)))"

text \<open>
  The quantities of the formula \<open>h = min(\<Delta>r) r\<^sub>D\<close> in the words of the documentation:
  the least distance between two distinct reference nodes, and the inradius
  \<open>d V / (F\<^sub>1 + \<dots> + F\<^sub>n)\<close> of a cell of volume \<open>V\<close> with faces of areas \<open>F\<^sub>i\<close>.
\<close>

definition min_node_distance :: "node list \<Rightarrow> real" where
  "min_node_distance nodes =
     Min {node_dist (nodes ! i) (nodes ! j) | i j.
            i < length nodes \<and> j < length nodes \<and> i \<noteq> j}"

definition inradius :: "nat \<Rightarrow> real \<Rightarrow> real list \<Rightarrow> real" where
  "inradius d V Fs = real d * V / sum_list Fs"

text \<open>
  The factors that \<open>characteristic_lengthscales\<close> multiplies, and what it means for the
  elementwise integrals of one to be the cell volumes and the face areas.
\<close>

definition non_geometric_factor :: "ElementGroup \<Rightarrow> real" where
  "non_geometric_factor grp =
     (if order grp = 0 then node_dist (unit_nodes grp ! 0) (hd (vertex_unit_coordinates grp))
      else min_node_distance (unit_nodes grp))"

definition geometric_factor :: "nat \<Rightarrow> real \<Rightarrow> real list \<Rightarrow> real" where
  "geometric_factor d V Fs = (if d = 1 then V else inradius d V Fs)"

definition cell_integrals :: "ElementGroup \<Rightarrow> grp_array \<Rightarrow> (nat \<Rightarrow> real) \<Rightarrow> bool" where
  "cell_integrals grp a V \<longleftrightarrow>
     length a = nelements grp \<and> (\<forall>e<nelements grp. a ! e = replicate (nunit_dofs grp) (V e))"

definition face_integrals ::
  "ElementGroup \<Rightarrow> ElementGroup \<Rightarrow> grp_array \<Rightarrow> (nat \<Rightarrow> nat \<Rightarrow> real) \<Rightarrow> bool" where
  "face_integrals vgrp afgrp a F \<longleftrightarrow>
     length a = nfaces vgrp * nelements vgrp
     \<and> (\<forall>f<nfaces vgrp. \<forall>e<nelements vgrp.
           a ! (f * nelements vgrp + e) = replicate (nunit_dofs afgrp) (F f e))"

section \<open>The logarithmic mean (grudge/models/euler.py)\<close>

text \<open>
  \<open>log_mean\<close> computes on Python floats, which are IEEE 754 binary64 numbers. A
  double is a finite real number, an infinity, or not a number. The sign of a zero is
  not represented: \<open>==\<close> and \<open><\<close> do not distinguish the two zeros, and
  dividing by either raises.

  \<open>rnd\<close> rounds a real number to the nearest double, ties to even (\<open>rhe\<close> rounds
  to the nearest integer, ties to even). Around \<open>r\<close> the doubles are the multiples of
  \<open>ulp r\<close>, which is \<open>2\<close> to the power \<open>e - 52\<close> for the binary exponent \<open>e\<close> of \<open>r\<close>, and
  \<open>2\<close> to the power \<open>- 1074\<close> for the subnormal numbers, below \<open>2\<close> to the power
  \<open>- 1022\<close>. A rounded value of magnitude \<open>2 ^ 1024\<close> or more is an infinity. A real
  number is a double iff rounding leaves it unchanged.
\<close>

datatype double = Finite real | PInf | NInf | NaN

definition rhe :: "real \<Rightarrow> int" where
  "rhe m =
     (let f = \<lfloor>m\<rfloor>; d = m - of_int f
      in if d < 1/2 then f else if 1/2 < d then f + 1 else if even f then f else f + 1)"

definition expo :: "real \<Rightarrow> int" where
  "expo r = max \<lfloor>log 2 \<bar>r\<bar>\<rfloor> (- 1022)"

definition ulp :: "real \<Rightarrow> real" where
  "ulp r = 2 powr (of_int (expo r) - 52)"

definition rnd :: "real \<Rightarrow> double" where
  "rnd r =
     (if r = 0 then Finite 0
      else let q = of_int (rhe (r / ulp r)) * ulp r
           in if 2 ^ 1024 \<le> \<bar>q\<bar> then (if 0 < r then PInf else NInf) else Finite q)"

definition is_double :: "real \<Rightarrow> bool" where
  "is_double r = (rnd r = Finite r)"

text \<open>
  The operations of Python floats. Addition, subtraction and multiplication round the
  exact result and never raise; division raises \<open>ZeroDivisionError\<close> on a zero
  divisor and rounds the exact quotient otherwise.
\<close>

definition fneg :: "double \<Rightarrow> double" where
  "fneg x = (case x of Finite a \<Rightarrow> Finite (- a) | PInf \<Rightarrow> NInf | NInf \<Rightarrow> PInf | NaN \<Rightarrow> NaN)"

fun fadd :: "double \<Rightarrow> double \<Rightarrow> double" where
  "fadd (Finite a) (Finite b) = rnd (a + b)"
| "fadd NaN y = NaN"
| "fadd x NaN = NaN"
| "fadd PInf NInf = NaN"
| "fadd NInf PInf = NaN"
| "fadd PInf y = PInf"
| "fadd x PInf = PInf"
| "fadd NInf y = NInf"
| "fadd x NInf = NInf"

definition fsub :: "double \<Rightarrow> double \<Rightarrow> double" where
  "fsub x y = fadd x (fneg y)"

fun fmul :: "double \<Rightarrow> double \<Rightarrow> double" where
  "fmul (Finite a) (Finite b) = rnd (a * b)"
| "fmul NaN y = NaN"
| "fmul x NaN = NaN"
| "fmul PInf (Finite b) = (if b = 0 then NaN else if 0 < b then PInf else NInf)"
| "fmul NInf (Finite b) = (if b = 0 then NaN else if 0 < b then NInf else PInf)"
| "fmul (Finite a) PInf = (if a = 0 then NaN else if 0 < a then PInf else NInf)"
| "fmul (Finite a) NInf = (if a = 0 then NaN else if 0 < a then NInf else PInf)"
| "fmul PInf PInf = PInf"
| "fmul PInf NInf = NInf"
| "fmul NInf PInf = NInf"
| "fmul NInf NInf = PInf"

fun fquot :: "double \<Rightarrow> double \<Rightarrow> double" where
  "fquot (Finite a) (Finite b) = rnd (a / b)"
| "fquot NaN y = NaN"
| "fquot x NaN = NaN"
| "fquot (Finite a) y = Finite 0"
| "fquot PInf (Finite b) = (if 0 < b then PInf else NInf)"
| "fquot NInf (Finite b) = (if 0 < b then NInf else PInf)"
| "fquot PInf PInf = NaN"
| "fquot PInf NInf = NaN"
| "fquot NInf PInf = NaN"
| "fquot NInf NInf = NaN"

definition fdiv :: "double \<Rightarrow> double \<Rightarrow> error + double" where
  "fdiv x y = (if y = Finite 0 then Inl ZeroDivisionError else Inr (fquot x y))"

fun flt :: "double \<Rightarrow> double \<Rightarrow> bool" where
  "flt (Finite a) (Finite b) = (a < b)"
| "flt NaN y = False"
| "flt x NaN = False"
| "flt x NInf = False"
| "flt PInf y = False"
| "flt x y = True"

text \<open>
  \<open>f_squared**2\<close> and \<open>f_squared**3\<close> are computed by the \<open>pow\<close> of the C library, and
  \<open>actx.np.log\<close> and the division of a float by its result belong to the array
  context: the three are parameters, and each may raise. \<open>log_mean\<close> returns a Python
  float from its series branch and a number of the array context from its logarithm
  branch. The default value of \<open>epsilon\<close> is the double nearest to \<open>1e-4\<close>.
\<close>

datatype 'a number = PyFloat double | ActxNumber 'a

record 'a Numerics =
  float_pow :: "double \<Rightarrow> nat \<Rightarrow> error + double"
  actx_log :: "double \<Rightarrow> error + 'a"
  float_rtruediv :: "double \<Rightarrow> 'a \<Rightarrow> error + 'a"

definition default_epsilon :: double where
  "default_epsilon = rnd (1 / 10000)"

definition log_mean :: "'a Numerics \<Rightarrow> double \<Rightarrow> double \<Rightarrow> double \<Rightarrow> error + 'a number" where
  "log_mean lib x y epsilon =
     (let two_y = fmul (Finite 2) y;
          num = fadd (fmul x (fsub x two_y)) (fmul y y);
          den = fadd (fmul x (fadd x two_y)) (fmul y y)
      in bind_err (fdiv num den)
           (\<lambda>f_squared.
              if flt f_squared epsilon then
                bind_err (float_pow lib f_squared 2)
                  (\<lambda>p2. bind_err (float_pow lib f_squared 3)
                     (\<lambda>p3.
                        let f = fadd (fadd (fadd (Finite 1) (fmul (rnd (1 / 3)) f_squared))
                                        (fmul (rnd (1 / 5)) p2))
                                  (fmul (rnd (1 / 7)) p3)
                        in bind_err (fdiv (fadd x y) (fmul (Finite 2) f))
                             (\<lambda>r. Inr (PyFloat r))))
              else
                bind_err (fdiv x y)
                  (\<lambda>q. bind_err (actx_log lib q)
                     (\<lambda>l. bind_err (float_rtruediv lib (fsub x y) l)
                        (\<lambda>r. Inr (ActxNumber r))))))"

section \<open>Summation-by-parts operators (grudge/sbp_op.py)\<close>

text \<open>
  \<open>modepy.vandermonde\<close>: row \<open>i\<close> holds the values of the functions at node \<open>i\<close>.
\<close>

definition vandermonde :: "(node \<Rightarrow> real) list \<Rightarrow> node list \<Rightarrow> matrix" where
  "vandermonde functions nodes = map (\<lambda>x. map (\<lambda>f. f x) functions) nodes"

text \<open>
  The matrix product \<open>A @ B\<close> of numpy: every row of \<open>A\<close> must be as long as \<open>B\<close> has
  rows. A matrix without rows has no columns.
\<close>

definition ncols :: "matrix \<Rightarrow> nat" where
  "ncols B = (case B of [] \<Rightarrow> 0 | r # _ \<Rightarrow> length r)"

definition mat_mul :: "matrix \<Rightarrow> matrix \<Rightarrow> error + matrix" where
  "mat_mul A B =
     (if list_ex (\<lambda>r. length r \<noteq> length B) A then
        Inl (ValueError ''matmul: input operands have a mismatch in their core dimension'')
      else Inr (map (\<lambda>r. map (\<lambda>j. sum_list (map2 (\<lambda>a row. a * row ! j) r B)) [0..<ncols B]) A))"

text \<open>
  \<open>np.linalg.inv\<close> is a function of the numerical library and a parameter of the two
  functions below; it raises \<open>LinAlgError\<close> on a singular matrix.
\<close>

definition volume_quadrature_interpolation_matrix ::
  "(matrix \<Rightarrow> error + matrix) \<Rightarrow> ArrayContext \<Rightarrow> ElementGroup \<Rightarrow> ElementGroup
     \<Rightarrow> error + matrix" where
  "volume_quadrature_interpolation_matrix linalg_inv actx base_grp quad_grp =
     (let basis = basis_functions base_grp
      in bind_err (linalg_inv (vandermonde basis (unit_nodes base_grp)))
           (\<lambda>vdm_inv. mat_mul (vandermonde basis (unit_nodes quad_grp)) vdm_inv))"

text \<open>
  The array \<open>matrix\<close> that the source allocates with \<open>dtype\<close> is never used.
  \<open>np.concatenate\<close> raises on an empty list of arrays.
\<close>

definition surface_quadrature_interpolation_matrix ::
  "(matrix \<Rightarrow> error + matrix) \<Rightarrow> ArrayContext \<Rightarrow> ElementGroup \<Rightarrow> ElementGroup \<Rightarrow> string
     \<Rightarrow> error + matrix" where
  "surface_quadrature_interpolation_matrix linalg_inv actx base_grp quad_face_grp dtype =
     (let nf = nfaces base_grp
      in if nelements quad_face_grp \<noteq> nf * nelements base_grp then Inl AssertionError
         else
           let basis = basis_functions base_grp
           in bind_err (linalg_inv (vandermonde basis (unit_nodes base_grp)))
                (\<lambda>vdm_inv.
                   let faces = shape_faces base_grp;
                       face_quadrature_nodes = quadrature_nodes quad_face_grp
                   in if faces = [] then
                        Inl (ValueError ''need at least one array to concatenate'')
                      else
                        let surface_nodes =
                              concat (map (\<lambda>face. map face face_quadrature_nodes) faces)
                        in mat_mul (vandermonde basis surface_nodes) vdm_inv))"

text \<open>
  A call that binds its arguments: the first \<open>npos\<close> parameters take the positional
  arguments, a keyword that names no parameter raises \<open>TypeError\<close>, and so does a
  parameter left without an argument.
\<close>

definition bind_arguments :: "string \<Rightarrow> string list \<Rightarrow> nat \<Rightarrow> string list \<Rightarrow> error + unit" where
  "bind_arguments fname params npos kws =
     (case filter (\<lambda>k. k \<notin> set params) kws of
        k # _ \<Rightarrow>
          Inl (TypeError (fname @ ''() got an unexpected keyword argument ''
                            @ [CHR 0x27] @ k @ [CHR 0x27]))
      | [] \<Rightarrow>
          (if list_ex (\<lambda>p. p \<notin> set kws) (drop npos params) then
             Inl (TypeError (fname @ ''() missing required positional arguments''))
           else Inr ()))"

text \<open>
  \<open>quadrature_based_inverse_mass_matrix(actx, base_element_group, quad_element_group)\<close>
  as \<open>_apply_inverse_sbp_mass_operator\<close> calls it, with one positional argument and
  the keyword \<open>element_group\<close>: the body of the function is not entered.
\<close>

definition quadrature_based_inverse_mass_matrix_call ::
  "ArrayContext \<Rightarrow> ElementGroup \<Rightarrow> error + matrix" where
  "quadrature_based_inverse_mass_matrix_call actx element_group =
     bind_err
       (bind_arguments ''quadrature_based_inverse_mass_matrix''
          [''actx'', ''base_element_group'', ''quad_element_group''] 1 [''element_group''])
       (\<lambda>_. Inr [])"

text \<open>\<open>einsum("ei,ij,ej->ei")\<close>: entry (e, i) is \<open>a[e][i] * sum_j m[i][j] * v[e][j]\<close>.\<close>

definition einsum_ei_ij_ej :: "grp_array \<Rightarrow> matrix \<Rightarrow> grp_array \<Rightarrow> grp_array" where
  "einsum_ei_ij_ej a m v =
     map2 (\<lambda>arow vrow. map2 (\<lambda>x mrow. x * sum_list (map2 (*) mrow vrow)) arow m) a v"

definition mismatch_message :: string where
  "mismatch_message =
     ''Cannot compute inverse of a mass matrix mapping between different element groups; ''
     @ ''inverse is not guaranteed to be well-defined''"

text \<open>
  \<open>_apply_inverse_sbp_mass_operator\<close>: the recursion over an object array comes first,
  then the comparison of the descriptors; a number has no \<open>array_context\<close>.
\<close>

fun apply_inverse_sbp_mass_operator ::
  "DiscretizationCollection \<Rightarrow> DOFDesc \<Rightarrow> DOFDesc \<Rightarrow> field \<Rightarrow> error + field"
and apply_inverse_sbp_mass_operator_els ::
  "DiscretizationCollection \<Rightarrow> DOFDesc \<Rightarrow> DOFDesc \<Rightarrow> field list \<Rightarrow> error + field list"
where
  "apply_inverse_sbp_mass_operator dcoll dd_out dd_in (ObjArray vs) =
     (case apply_inverse_sbp_mass_operator_els dcoll dd_out dd_in vs of
        Inl e \<Rightarrow> Inl e
      | Inr rs \<Rightarrow> Inr (ObjArray rs))"
| "apply_inverse_sbp_mass_operator dcoll dd_out dd_in (Number x) =
     (if dd_out \<noteq> dd_in then Inl (ValueError mismatch_message)
      else Inl (AttributeError ''array_context''))"
| "apply_inverse_sbp_mass_operator dcoll dd_out dd_in (DOFArr vec) =
     (if dd_out \<noteq> dd_in then Inl (ValueError mismatch_message)
      else
        let actx = ArrayContext;
            discr = discr_from_dd dcoll dd_in;
            inv_area_elements = map (map (map (\<lambda>x. 1 / x))) (area_element dcoll dd_in)
        in (case map_err
                  (\<lambda>(grp, jac_inv, vec_i).
                     bind_err (quadrature_based_inverse_mass_matrix_call actx grp)
                       (\<lambda>m. Inr (einsum_ei_ij_ej jac_inv m vec_i)))
                  (zip (groups discr) (zip inv_area_elements vec)) of
              Inl e \<Rightarrow> Inl e
            | Inr data \<Rightarrow> Inr (DOFArr data)))"
| "apply_inverse_sbp_mass_operator_els dcoll dd_out dd_in [] = Inr []"
| "apply_inverse_sbp_mass_operator_els dcoll dd_out dd_in (v # vs) =
     (case apply_inverse_sbp_mass_operator dcoll dd_out dd_in v of
        Inl e \<Rightarrow> Inl e
      | Inr r \<Rightarrow>
          (case apply_inverse_sbp_mass_operator_els dcoll dd_out dd_in vs of
             Inl e \<Rightarrow> Inl e
           | Inr rs \<Rightarrow> Inr (r # rs)))"

definition inverse_sbp_mass :: "DiscretizationCollection \<Rightarrow> field \<Rightarrow> error + field" where
  "inverse_sbp_mass dcoll vec = apply_inverse_sbp_mass_operator dcoll DD_VOLUME DD_VOLUME vec"

text \<open>A field has an entry unless it is built from empty object arrays only.\<close>

fun has_entry :: "field \<Rightarrow> bool" where
  "has_entry (ObjArray vs) = list_ex has_entry vs"
| "has_entry (Number x) = True"
| "has_entry (DOFArr a) = True"

text \<open>
  The product of two matrices in its textbook form: entry \<open>(i, j)\<close> is the sum over
  \<open>k\<close> of \<open>A[i][k] * B[k][j]\<close>.
\<close>

definition matrix_product :: "matrix \<Rightarrow> matrix \<Rightarrow> matrix" where
  "matrix_product A B =
     map (\<lambda>i. map (\<lambda>j. \<Sum>k<length B. A ! i ! k * B ! k ! j) [0..<ncols B]) [0..<length A]"

section \<open>Symbolic geometry (grudge/symbolic/primitives.py)\<close>

text \<open>
  The functions of this module build expression trees. The multivectors of
  \<open>pymbolic.geometric_algebra\<close> are external: each of their operations is a node of
  the tree.

  The names that \<open>grudge/symbolic/operators.py\<close> binds at module level (its imports,
  classes and functions). A statement \<open>from grudge.symbolic.operators import name\<close>
  raises \<open>ImportError\<close> for any other name; \<open>RefDiffOperator\<close> and \<open>project\<close>, which
  \<open>forward_metric_nth_derivative\<close> imports, are not among them.
\<close>

definition operators_module_names :: "string list" where
  "operators_module_names =
     [''division'', ''absolute_import'', ''__copyright__'', ''__license__'', ''intern'',
      ''np'', ''la'', ''pymbolic'', ''Record'', ''memoize_method'', ''Operator'',
      ''NodalReductionOperator'', ''NodalSum'', ''NodalMax'', ''NodalMin'',
      ''DiffOperatorBase'', ''StrongFormDiffOperatorBase'', ''WeakFormDiffOperatorBase'',
      ''StiffnessOperator'', ''DifferentiationOperator'', ''StiffnessTOperator'',
      ''MInvSTOperator'', ''QuadratureStiffnessTOperator'', ''DiffOperatorVector'',
      ''ReferenceDiffOperatorBase'', ''ReferenceDifferentiationOperator'',
      ''ReferenceStiffnessTOperator'', ''ReferenceQuadratureStiffnessTOperator'',
      ''ElementwiseLinearOperator'', ''ElementwiseMaxOperator'', ''QuadratureGridUpsampler'',
      ''QuadratureInteriorFacesGridUpsampler'', ''FilterOperator'', ''OnesOperator'',
      ''AveragingOperator'', ''InverseVandermondeOperator'', ''VandermondeOperator'',
      ''MassOperatorBase'', ''MassOperator'', ''InverseMassOperator'',
      ''QuadratureMassOperator'', ''ReferenceQuadratureMassOperator'',
      ''ReferenceMassOperatorBase'', ''ReferenceMassOperator'',
      ''ReferenceInverseMassOperator'', ''BoundarizeOperator'', ''FluxExchangeOperator'',
      ''FluxOperatorBase'', ''QuadratureFluxOperatorBase'', ''BoundaryFluxOperatorBase'',
      ''FluxOperator'', ''BoundaryFluxOperator'', ''QuadratureFluxOperator'',
      ''QuadratureBoundaryFluxOperator'', ''VectorFluxOperator'',
      ''WholeDomainFluxOperator'', ''get_flux_operator'', ''nabla'', ''minv_stiffness_t'',
      ''stiffness'', ''stiffness_t'', ''integral'', ''norm'']"

definition import_from_operators :: "string \<Rightarrow> error + unit" where
  "import_from_operators name =
     (if name \<in> set operators_module_names then Inr () else Inl (ImportError name))"

text \<open>
  The operators that the code after the two imports applies; they appear as the
  operator of an \<open>OperatorBinding\<close>.
\<close>

datatype oper = RefDiffOperator nat DOFDesc | ProjectionOperator DOFDesc DOFDesc

datatype expr =
    Const real
  | SignedFaceOnes DOFDesc
  | NodeCoordinateComponent nat DOFDesc
  | OperatorBinding oper expr
  | Sum "expr list"
  | Product "expr list"
  | Quotient expr expr
  | Sqrt expr
  | CSE expr string
  | NormSquared multivector
and multivector =
    MultiVector "expr list"
  | ScalarMultiVector expr int
  | One
  | GeometricProduct multivector multivector
  | OuterProduct multivector multivector
  | LeftContraction multivector multivector
  | UnitPseudoscalarInverse multivector
  | ProjectMaxGrade multivector
  | DivideBy multivector expr
  | CSEmv multivector string

text \<open>
  The three operations of a multivector that can raise are parameters: the conversion
  to a vector (defined for grade one only), the conversion to a scalar, and the
  inverse.
\<close>

record GeometricAlgebra =
  as_vector :: "multivector \<Rightarrow> error + expr list"
  as_scalar :: "multivector \<Rightarrow> error + expr"
  inv :: "multivector \<Rightarrow> error + multivector"

definition dd_arg_of :: "DOFDesc option \<Rightarrow> dd_arg" where
  "dd_arg_of dd = (case dd of None \<Rightarrow> OfNone | Some d \<Rightarrow> OfDesc d)"

text \<open>The constructor of \<open>_SignedFaceOnes\<close>.\<close>

definition SignedFaceOnes_init :: "dd_arg \<Rightarrow> error + expr" where
  "SignedFaceOnes_init dd =
     bind_err (as_dofdesc dd)
       (\<lambda>dd'. if \<not> is_trace dd' then Inl AssertionError else Inr (SignedFaceOnes dd'))"

text \<open>
  Modelled from the spec: the evaluation of \<open>_SignedFaceOnes\<close> belongs to the execution
  mapper, which is not among the sources. Given the face number of every degree of
  freedom of a point-shaped trace, it produces \<open>+1\<close> where the face number is even and
  \<open>-1\<close> where it is odd.
\<close>

definition map_signed_face_ones :: "nat list \<Rightarrow> real list" where
  "map_signed_face_ones face_numbers = map (\<lambda>f. if even f then 1 else - 1) face_numbers"

text \<open>The constructor of \<open>NodeCoordinateComponent\<close>.\<close>

definition NodeCoordinateComponent_init :: "nat \<Rightarrow> DOFDesc \<Rightarrow> error + expr" where
  "NodeCoordinateComponent_init axis dd =
     (if \<not> is_discretized dd then
        Inl (ValueError ''dd must be a discretization for NodeCoordinateComponent'')
      else if domain_tag dd = None then Inl AssertionError
      else Inr (NodeCoordinateComponent axis dd))"

text \<open>
  The argument \<open>ref_axes\<close> is an integer, a tuple of pairs (axis, number of
  derivatives), or something else. A tuple equals its sorted copy iff its pairs are in
  lexicographic order; \<open>dict\<close> keeps one entry per axis.
\<close>

datatype ref_axes = AxisIndex nat | AxisTuple "(nat \<times> int) list" | NotATuple

definition pair_le :: "nat \<times> int \<Rightarrow> nat \<times> int \<Rightarrow> bool" where
  "pair_le p q = (fst p < fst q \<or> (fst p = fst q \<and> snd p \<le> snd q))"

definition flatten_axes :: "(nat \<times> int) list \<Rightarrow> nat list" where
  "flatten_axes axes = concat (map (\<lambda>(rst_axis, n). replicate (nat n) rst_axis) axes)"

definition forward_metric_nth_derivative ::
  "nat \<Rightarrow> ref_axes \<Rightarrow> DOFDesc option \<Rightarrow> error + expr" where
  "forward_metric_nth_derivative xyz_axis ref_axes0 dd0 =
     (case (case ref_axes0 of AxisIndex i \<Rightarrow> Some [(i, 1)] | AxisTuple t \<Rightarrow> Some t
                            | NotATuple \<Rightarrow> None) of
        None \<Rightarrow> Inl (ValueError ''ref_axes must be a tuple'')
      | Some ref_axes \<Rightarrow>
          if \<not> sorted_wrt pair_le ref_axes then Inl (ValueError ''ref_axes must be sorted'')
          else if length (remdups (map fst ref_axes)) \<noteq> length ref_axes then
            Inl (ValueError ''ref_axes must not contain an axis more than once'')
          else
            let dd = (case dd0 of None \<Rightarrow> DD_VOLUME | Some d \<Rightarrow> d);
                inner_dd = with_discr_tag dd DISCR_TAG_BASE;
                flat_ref_axes = flatten_axes ref_axes
            in bind_err (import_from_operators ''RefDiffOperator'')
                 (\<lambda>_. bind_err (NodeCoordinateComponent_init xyz_axis inner_dd)
                    (\<lambda>result0.
                       let result = foldl (\<lambda>r rst_axis.
                                             OperatorBinding (RefDiffOperator rst_axis inner_dd) r)
                                      result0 flat_ref_axes
                       in if uses_quadrature dd then
                            bind_err (import_from_operators ''project'')
                              (\<lambda>_. Inr (OperatorBinding (ProjectionOperator inner_dd dd)
                                          result))
                          else Inr result)))"

definition forward_metric_derivative :: "nat \<Rightarrow> nat \<Rightarrow> DOFDesc option \<Rightarrow> error + expr" where
  "forward_metric_derivative xyz_axis rst_axis dd =
     forward_metric_nth_derivative xyz_axis (AxisIndex rst_axis) dd"

definition forward_metric_derivative_vector ::
  "int \<Rightarrow> nat \<Rightarrow> DOFDesc option \<Rightarrow> error + expr list" where
  "forward_metric_derivative_vector ambient_dim rst_axis dd =
     map_err (\<lambda>i. forward_metric_derivative i rst_axis dd) [0..<nat ambient_dim]"

definition forward_metric_derivative_mv ::
  "int \<Rightarrow> nat \<Rightarrow> DOFDesc option \<Rightarrow> error + multivector" where
  "forward_metric_derivative_mv ambient_dim rst_axis dd =
     bind_err (forward_metric_derivative_vector ambient_dim rst_axis dd)
       (\<lambda>v. Inr (MultiVector v))"

text \<open>
  \<open>pytools.product\<close> multiplies from the left, starting from the number one, which is
  what it returns for no factor at all.
\<close>

definition parametrization_derivative ::
  "int \<Rightarrow> int option \<Rightarrow> DOFDesc option \<Rightarrow> error + multivector" where
  "parametrization_derivative ambient_dim dim0 dd =
     (let dim = (case dim0 of None \<Rightarrow> ambient_dim | Some d \<Rightarrow> d)
      in if dim = 0 then
           bind_err (SignedFaceOnes_init (dd_arg_of dd))
             (\<lambda>e. Inr (ScalarMultiVector e ambient_dim))
         else
           bind_err (map_err (\<lambda>rst_axis. forward_metric_derivative_mv ambient_dim rst_axis dd)
                       [0..<nat dim])
             (\<lambda>vs. Inr (foldl GeometricProduct One vs)))"

definition pseudoscalar :: "int \<Rightarrow> int option \<Rightarrow> DOFDesc option \<Rightarrow> error + multivector" where
  "pseudoscalar ambient_dim dim0 dd =
     (let dim = (case dim0 of None \<Rightarrow> ambient_dim | Some d \<Rightarrow> d)
      in bind_err (parametrization_derivative ambient_dim (Some dim) dd)
           (\<lambda>pd. case pd of
                    One \<Rightarrow> Inl (AttributeError ''project_max_grade'')
                  | _ \<Rightarrow> Inr (ProjectMaxGrade pd)))"

definition area_element_expr :: "int \<Rightarrow> int option \<Rightarrow> DOFDesc option \<Rightarrow> error + expr" where
  "area_element_expr ambient_dim dim0 dd =
     bind_err (pseudoscalar ambient_dim dim0 dd)
       (\<lambda>p. Inr (CSE (Sqrt (NormSquared p)) ''area_element''))"

text \<open>
  \<open>pder.I.inv()\<close> is the inverse of the unit pseudoscalar of the space of \<open>pder\<close>; it
  always exists and is one node.
\<close>

definition surface_normal ::
  "int \<Rightarrow> int option \<Rightarrow> DOFDesc option \<Rightarrow> error + multivector" where
  "surface_normal ambient_dim dim0 dd0 =
     bind_err (as_dofdesc (dd_arg_of dd0))
       (\<lambda>dd.
          let dim = (case dim0 of None \<Rightarrow> ambient_dim - 1 | Some d \<Rightarrow> d)
          in bind_err (pseudoscalar ambient_dim (Some dim) (Some dd))
               (\<lambda>p. bind_err (area_element_expr ambient_dim (Some dim) (Some dd))
                  (\<lambda>a. let pder = DivideBy p a
                        in Inr (CSEmv (LeftContraction pder (UnitPseudoscalarInverse pder))
                                  ''surface_normal''))))"

text \<open>
  Object arrays of expressions: a matrix is the list of its rows. \<open>np.zeros\<close> raises on
  a negative dimension. The symbolic matrix product has, at \<open>(i, j)\<close>, the sum over \<open>k\<close>
  of the products \<open>A[i][k] B[k][j]\<close>, for \<open>k\<close> below the given inner dimension.
\<close>

definition np_zeros_check :: "int \<Rightarrow> int \<Rightarrow> error + unit" where
  "np_zeros_check m n =
     (if m < 0 \<or> n < 0 then Inl (ValueError ''negative dimensions are not allowed'')
      else Inr ())"

definition e_dot :: "nat \<Rightarrow> nat \<Rightarrow> nat \<Rightarrow> (nat \<Rightarrow> nat \<Rightarrow> expr) \<Rightarrow> (nat \<Rightarrow> nat \<Rightarrow> expr)
                      \<Rightarrow> expr list list" where
  "e_dot m inner n A B =
     map (\<lambda>i. map (\<lambda>j. Sum (map (\<lambda>k. Product [A i k, B k j]) [0..<inner])) [0..<n]) [0..<m]"

definition cse_mat :: "expr list list \<Rightarrow> string \<Rightarrow> expr list list" where
  "cse_mat M name = map (map (\<lambda>e. CSE e name)) M"

definition forward_metric_derivative_mat ::
  "int \<Rightarrow> int option \<Rightarrow> DOFDesc option \<Rightarrow> error + expr list list" where
  "forward_metric_derivative_mat ambient_dim dim0 dd =
     (let dim = (case dim0 of None \<Rightarrow> ambient_dim | Some d \<Rightarrow> d)
      in bind_err (np_zeros_check ambient_dim dim)
           (\<lambda>_. bind_err (map_err (\<lambda>j. forward_metric_derivative_vector ambient_dim j dd)
                             [0..<nat dim])
              (\<lambda>columns. Inr (map (\<lambda>i. map (\<lambda>c. c ! i) columns) [0..<nat ambient_dim]))))"

text \<open>\<open>reduce\<close> with the outer product and no initial value raises on no operand.\<close>

definition outerprod :: "multivector list \<Rightarrow> error + multivector" where
  "outerprod vecs =
     (case vecs of
        [] \<Rightarrow> Inl (TypeError ''reduce() of empty sequence with no initial value'')
      | v # vs \<Rightarrow> Inr (foldl OuterProduct v vs))"

definition inverse_metric_derivative ::
  "GeometricAlgebra \<Rightarrow> nat \<Rightarrow> nat \<Rightarrow> int \<Rightarrow> int option \<Rightarrow> DOFDesc option \<Rightarrow> error + expr" where
  "inverse_metric_derivative ga rst_axis xyz_axis ambient_dim dim0 dd =
     (let dim = (case dim0 of None \<Rightarrow> ambient_dim | Some d \<Rightarrow> d)
      in if dim \<noteq> ambient_dim then
           Inl (ValueError (''not clear what inverse_metric_derivative means if ''
                              @ ''the derivative matrix is not square''))
         else
           bind_err (map_err (\<lambda>rst. forward_metric_derivative_mv ambient_dim rst dd)
                       [0..<nat dim])
             (\<lambda>par_vecs.
                bind_err (map_err (\<lambda>rst. forward_metric_derivative_mv ambient_dim rst dd)
                            [0..<nat dim])
                  (\<lambda>vs. bind_err (outerprod vs)
                     (\<lambda>vol. bind_err (inv ga vol)
                        (\<lambda>vol_inv.
                           let volume_pseudoscalar_inv = CSEmv vol_inv ''''
                           in if \<not> int xyz_axis < dim \<or> \<not> rst_axis < length par_vecs then
                                Inl IndexError
                              else
                                let unit_vec = map (\<lambda>k. Const (if k = xyz_axis then 1 else 0))
                                                 [0..<nat dim];
                                    vecs = par_vecs[rst_axis := MultiVector unit_vec]
                                in bind_err (outerprod vecs)
                                     (\<lambda>w. bind_err
                                             (as_scalar ga
                                                (GeometricProduct w volume_pseudoscalar_inv))
                                             (\<lambda>s. Inr (CSE s (''dr'' @ str_nat rst_axis @ ''_dx''
                                                                 @ str_nat xyz_axis)))))))))"

definition inverse_metric_derivative_mat ::
  "GeometricAlgebra \<Rightarrow> int \<Rightarrow> int option \<Rightarrow> DOFDesc option \<Rightarrow> error + expr list list" where
  "inverse_metric_derivative_mat ga ambient_dim dim0 dd =
     (let dim = (case dim0 of None \<Rightarrow> ambient_dim | Some d \<Rightarrow> d)
      in bind_err (np_zeros_check ambient_dim dim)
           (\<lambda>_. map_err
                   (\<lambda>i. map_err (\<lambda>j. inverse_metric_derivative ga i j ambient_dim (Some dim) dd)
                           [0..<nat ambient_dim])
                   [0..<nat dim]))"

definition first_fundamental_form ::
  "int \<Rightarrow> int option \<Rightarrow> DOFDesc option \<Rightarrow> error + expr list list" where
  "first_fundamental_form ambient_dim dim0 dd =
     (let dim = (case dim0 of None \<Rightarrow> ambient_dim - 1 | Some d \<Rightarrow> d)
      in bind_err (forward_metric_derivative_mat ambient_dim (Some dim) dd)
           (\<lambda>mder. Inr (cse_mat
                          (e_dot (nat dim) (nat ambient_dim) (nat dim)
                             (\<lambda>i k. mder ! k ! i) (\<lambda>k j. mder ! k ! j))
                          ''form1_mat'')))"

definition inverse_first_fundamental_form ::
  "GeometricAlgebra \<Rightarrow> int \<Rightarrow> int option \<Rightarrow> DOFDesc option \<Rightarrow> error + expr list list" where
  "inverse_first_fundamental_form ga ambient_dim dim0 dd =
     (let dim = (case dim0 of None \<Rightarrow> ambient_dim - 1 | Some d \<Rightarrow> d)
      in bind_err
           (if ambient_dim = dim then
              bind_err (inverse_metric_derivative_mat ga ambient_dim (Some dim) dd)
                (\<lambda>inv_mder. Inr (e_dot (nat dim) (nat ambient_dim) (nat dim)
                                    (\<lambda>i k. inv_mder ! i ! k) (\<lambda>k j. inv_mder ! j ! k)))
            else
              bind_err (first_fundamental_form ambient_dim (Some dim) dd)
                (\<lambda>form1.
                   if dim = 1 then Inr [[Quotient (Const 1) (form1 ! 0 ! 0)]]
                   else if dim = 2 then
                     (let E = form1 ! 0 ! 0; F = form1 ! 0 ! 1; G = form1 ! 1 ! 1;
                          det = Sum [Product [E, G], Product [Const (- 1), Product [F, F]]];
                          minus_F = Product [Const (- 1), F]
                      in Inr (map (map (\<lambda>e. Product [Quotient (Const 1) det, e]))
                                [[G, minus_F], [minus_F, E]]))
                   else Inl (ValueError (str_int dim @ ''D surfaces not supported''))))
           (\<lambda>inv_form1. Inr (cse_mat inv_form1 ''inv_form1_mat'')))"

definition second_fundamental_form ::
  "GeometricAlgebra \<Rightarrow> int \<Rightarrow> int option \<Rightarrow> DOFDesc option \<Rightarrow> error + expr list list" where
  "second_fundamental_form ga ambient_dim dim0 dd =
     (let dim = (case dim0 of None \<Rightarrow> ambient_dim - 1 | Some d \<Rightarrow> d)
      in bind_err (surface_normal ambient_dim (Some dim) dd)
           (\<lambda>n. bind_err (as_vector ga n)
              (\<lambda>normal.
                 bind_err
                   (if dim = 1 then Inr [[(0, 2)]]
                    else if dim = 2 then Inr [[(0, 2)], [(0, 1), (1, 1)], [(1, 2)]]
                    else Inl (ValueError (str_int dim @ ''D surfaces not supported'')))
                   (\<lambda>second_ref_axes.
                      bind_err
                        (map_err
                           (\<lambda>ref_axes.
                              bind_err
                                (map_err
                                   (\<lambda>xyz_axis. forward_metric_nth_derivative xyz_axis
                                                  (AxisTuple ref_axes) dd)
                                   [0..<nat ambient_dim])
                                (\<lambda>ruv. Inr (Sum (map2 (\<lambda>a b. Product [a, b]) normal ruv))))
                           second_ref_axes)
                        (\<lambda>entries.
                           let form2 = (if dim = 1 then [[entries ! 0]]
                                        else [[entries ! 0, entries ! 1],
                                              [entries ! 1, entries ! 2]])
                           in Inr (cse_mat form2 ''form2_mat''))))))"

definition shape_operator ::
  "GeometricAlgebra \<Rightarrow> int \<Rightarrow> int option \<Rightarrow> DOFDesc option \<Rightarrow> error + expr list list" where
  "shape_operator ga ambient_dim dim0 dd =
     (let dim = (case dim0 of None \<Rightarrow> ambient_dim - 1 | Some d \<Rightarrow> d)
      in bind_err (inverse_first_fundamental_form ga ambient_dim (Some dim) dd)
           (\<lambda>inv_form1.
              bind_err (second_fundamental_form ga ambient_dim (Some dim) dd)
                (\<lambda>form2.
                   Inr (cse_mat
                          (e_dot (nat dim) (nat dim) (nat dim)
                             (\<lambda>i k. Product [Const (- 1), form2 ! i ! k])
                             (\<lambda>k j. inv_form1 ! k ! j))
                          ''shape_operator''))))"

definition summed_curvature ::
  "GeometricAlgebra \<Rightarrow> int \<Rightarrow> int option \<Rightarrow> DOFDesc option \<Rightarrow> error + expr" where
  "summed_curvature ga ambient_dim dim0 dd =
     (let dim = (case dim0 of None \<Rightarrow> ambient_dim - 1 | Some d \<Rightarrow> d)
      in if ambient_dim = 1 then Inr (Const 0)
         else if ambient_dim = dim then Inr (Const 0)
         else
           bind_err (shape_operator ga ambient_dim (Some dim) dd)
             (\<lambda>op. Inr (CSE (Sum (map (\<lambda>i. op ! i ! i) [0..<length op])) ''summed_curvature'')))"

section \<open>Example inputs\<close>

text \<open>
  Small meshes for the examples below: an interval of length 3 with its two end points,
  and a triangle with sides 3, 4 and 5 with its three edges.
\<close>

definition empty_group :: ElementGroup where
  "empty_group =
     \<lparr>is_simplex = True, order = 1, unit_nodes = [], nelements = 0,
      vertex_unit_coordinates = [], nfaces = 0, basis_functions = [],
      shape_faces = [], quadrature_nodes = []\<rparr>"

definition interval_group :: ElementGroup where
  "interval_group = empty_group\<lparr>unit_nodes := [[-1], [1]], nelements := 1,
      vertex_unit_coordinates := [[-1], [1]], nfaces := 2\<rparr>"

definition point_group :: ElementGroup where
  "point_group = empty_group\<lparr>order := 0, unit_nodes := [[]], nelements := 2,
      vertex_unit_coordinates := [[]]\<rparr>"

definition triangle_group :: ElementGroup where
  "triangle_group = empty_group\<lparr>unit_nodes := [[-1, -1], [1, -1], [-1, 1]], nelements := 1,
      vertex_unit_coordinates := [[-1, -1], [1, -1], [-1, 1]], nfaces := 3\<rparr>"

definition edge_group :: ElementGroup where
  "edge_group = empty_group\<lparr>unit_nodes := [[-1], [1]], nelements := 3,
      vertex_unit_coordinates := [[-1], [1]], nfaces := 2\<rparr>"

definition example_dcoll :: "nat \<Rightarrow> DiscretizationCollection" where
  "example_dcoll d =
     \<lparr>dim = d,
      discr_from_dd = (\<lambda>dd.
         if domain_tag dd = Some DTAG_VOLUME_ALL
         then \<lparr>groups = [if d = 1 then interval_group else triangle_group],
                discr_dim = d, discr_ambient_dim = d\<rparr>
         else \<lparr>groups = [if d = 1 then point_group else edge_group],
                discr_dim = d - 1, discr_ambient_dim = d\<rparr>),
      connection_from_dds = (\<lambda>s t a. Inr a),
      normal = (\<lambda>dd. Inr (ObjArray (replicate d (DOFArr [[[1]]])))),
      elementwise_integral = (\<lambda>dd a.
         if domain_tag dd = Some DTAG_VOLUME_ALL
         then (if d = 1 then [[[3, 3]]] else [[[6, 6, 6]]])
         else (if d = 1 then [[[1], [1]]] else [[[3, 3], [4, 4], [5, 5]]])),
      area_element = (\<lambda>dd. [[[1, 1]]])\<rparr>"

definition example_dcoll_quads :: DiscretizationCollection where
  "example_dcoll_quads =
     (example_dcoll 2)\<lparr>discr_from_dd :=
        (\<lambda>dd. \<lparr>groups = [triangle_group, triangle_group\<lparr>is_simplex := False\<rparr>],
               discr_dim = 2, discr_ambient_dim = 2\<rparr>)\<rparr>"

definition example_tpair :: TracePair where
  "example_tpair =
     \<lparr>tp_dd = DOFDesc (Some FACE_RESTR_INTERIOR) DISCR_TAG_BASE,
      interior = DOFArr [[[1]]], exterior = DOFArr [[[3]]]\<rparr>"

definition example_wtpair :: ObjTracePair where
  "example_wtpair =
     \<lparr>otp_dd = DOFDesc (Some FACE_RESTR_INTERIOR) DISCR_TAG_BASE,
      otp_int = [DOFArr [[[1]]], DOFArr [[[2]]]],
      otp_ext = [DOFArr [[[3]]], DOFArr [[[4]]]]\<rparr>"

text \<open>
  An array library for the examples, in which every operation succeeds: an arithmetic
  operation returns its first operand that is not a number, \<open>thaw\<close> returns the array.
\<close>

definition first_array :: "field \<Rightarrow> field \<Rightarrow> error + field" where
  "first_array x y = (case x of Number _ \<Rightarrow> Inr y | _ \<Rightarrow> Inr x)"

definition example_arithmetic :: ArrayLibrary where
  "example_arithmetic =
     \<lparr>np_add = first_array, np_sub = first_array, np_mul = first_array,
      np_pow = (\<lambda>x n. Inr x), np_dot = first_array,
      thaw = (\<lambda>a b. case (a, b) of
                       (ActxArg _, AryArg x) \<Rightarrow> Inr x
                     | (AryArg x, ActxArg _) \<Rightarrow> Inr x
                     | _ \<Rightarrow> Inl (TypeError ''thaw''))\<rparr>"

text \<open>
  The interval with the basis \<open>1, x\<close> and nodes \<open>-1, 1\<close>, whose Vandermonde matrix has the
  inverse that \<open>example_inv\<close> returns; a quadrature group with nodes \<open>0, 1/2\<close>; and the
  group of its two point faces with a one-point quadrature rule.
\<close>

definition example_basis_group :: ElementGroup where
  "example_basis_group =
     interval_group\<lparr>basis_functions := [\<lambda>x. 1, \<lambda>x. x ! 0],
                    shape_faces := [\<lambda>x. [- 1], \<lambda>x. [1]]\<rparr>"

definition example_inv :: "matrix \<Rightarrow> error + matrix" where
  "example_inv A = (if A = [[1, - 1], [1, 1]] then Inr [[1/2, 1/2], [- 1/2, 1/2]] else Inl LinAlgError)"

definition example_quad_group :: ElementGroup where
  "example_quad_group = example_basis_group\<lparr>unit_nodes := [[0], [1 / 2]]\<rparr>"

definition example_face_quad_group :: ElementGroup where
  "example_face_quad_group = point_group\<lparr>quadrature_nodes := [[]]\<rparr>"

text \<open>
  A geometric algebra whose conversions always succeed, and the descriptor of all faces.
\<close>

definition example_ga :: GeometricAlgebra where
  "example_ga =
     \<lparr>as_vector = (\<lambda>m. Inr (replicate 4 (Const 1))),
      as_scalar = (\<lambda>m. Inr (Const 1)),
      inv = (\<lambda>m. Inr m)\<rparr>"

definition example_face_dd :: DOFDesc where
  "example_face_dd = DOFDesc (Some FACE_RESTR_ALL) DISCR_TAG_BASE"

text \<open>
  Library functions for the examples: a power by repeated multiplication, a correctly
  rounded logarithm that returns a Python float, and the division of Python floats.
\<close>

definition example_numerics :: "double Numerics" where
  "example_numerics =
     \<lparr>float_pow = (\<lambda>s n. Inr (foldr fmul (replicate n s) (Finite 1))),
      actx_log = (\<lambda>q. Inr (case q of
                              Finite r \<Rightarrow> if 0 < r then rnd (ln r)
                                          else if r = 0 then NInf else NaN
                            | PInf \<Rightarrow> PInf | NInf \<Rightarrow> NaN | NaN \<Rightarrow> NaN)),
      float_rtruediv = fdiv\<rparr>"

section \<open>Properties\<close>

lemma bind_err_Inl [simp]: "bind_err (Inl e) f = Inl e"
  by (simp add: bind_err_def)

lemma bind_err_Inr [simp]: "bind_err (Inr x) f = f x"
  by (simp add: bind_err_def)

lemma as_dofdesc_OfDesc: "as_dofdesc (OfDesc d) = Inr d"
  by (simp add: as_dofdesc_def)

lemma project_dd_same: "project_dd dcoll d d vec lg = (Inr vec, lg)"
  by (cases vec) simp_all

text \<open>
  C1. For every collection, every pair of descriptor arguments that convert to equal
  descriptors, and every field, \<open>project\<close> returns the field unchanged and requests no
  connection: the log of connection requests is the one it was given.
\<close>

theorem project_identity:
  assumes "as_dofdesc src = Inr d" and "as_dofdesc tgt = Inr d"
  shows "project dcoll src tgt vec lg = (Inr vec, lg)"
  using assms by (simp add: project_def project_dd_same)

theorem project_identity_witness:
  "as_dofdesc (OfName ''vol'') = Inr DD_VOLUME
   \<and> as_dofdesc (OfDesc DD_VOLUME) = Inr DD_VOLUME
   \<and> project (example_dcoll 2) (OfName ''vol'') (OfDesc DD_VOLUME)
        (ObjArray [DOFArr [[[1, 2]]], Number 3]) []
      = (Inr (ObjArray [DOFArr [[[1, 2]]], Number 3]), [])"
proof -
  have a: "as_dofdesc (OfName ''vol'') = Inr DD_VOLUME"
    by (simp add: as_dofdesc_def DD_VOLUME_def)
  have b: "as_dofdesc (OfDesc DD_VOLUME) = Inr DD_VOLUME"
    by (simp add: as_dofdesc_def)
  show ?thesis
    using a b project_identity [OF a b] by simp
qed

lemma map_err_all: "(\<And>x. x \<in> set xs \<Longrightarrow> f x = Inr (g x)) \<Longrightarrow> map_err f xs = Inr (map g xs)"
  by (induction xs) simp_all

lemma map_err_nth:
  "(\<And>i. i < length xs \<Longrightarrow> f (xs ! i) = Inr (h i)) \<Longrightarrow> map_err f xs = Inr (map h [0..<length xs])"
proof (induction xs arbitrary: h)
  case Nil
  then show ?case by simp
next
  case (Cons x xs)
  have hd: "f x = Inr (h 0)"
    using Cons.prems [of 0] by simp
  have tl: "map_err f xs = Inr (map (\<lambda>i. h (Suc i)) [0..<length xs])"
    by (rule Cons.IH) (use Cons.prems in force)
  show ?case
    using hd tl by (simp add: map_upt_Suc del: upt_Suc)
qed

lemma pair_distances_set:
  "set [d i j. i \<leftarrow> [0..<n], j \<leftarrow> [0..<n], i \<noteq> j]
     = {d i j | i j. i < n \<and> j < n \<and> i \<noteq> j}"
  by auto (blast, fastforce)

lemma min_delta_r_value:
  assumes "if order grp = 0 then nunit_dofs grp = 1 \<and> vertex_unit_coordinates grp \<noteq> []
           else 2 \<le> nunit_dofs grp"
  shows "min_delta_r grp = Inr (non_geometric_factor grp)"
proof (cases "order grp = 0")
  case True
  then show ?thesis
    using assms
    by (cases "vertex_unit_coordinates grp")
       (simp_all add: min_delta_r_def non_geometric_factor_def Let_def)
next
  case False
  let ?n = "nunit_dofs grp"
  let ?d = "\<lambda>i j. node_dist (unit_nodes grp ! i) (unit_nodes grp ! j)"
  let ?ds = "[?d i j. i \<leftarrow> [0..<?n], j \<leftarrow> [0..<?n], i \<noteq> j]"
  have n: "2 \<le> ?n" using assms False by simp
  have "\<exists>i j. ?d 0 1 = ?d i j \<and> i < ?n \<and> j < ?n \<and> i \<noteq> j"
    using n by (intro exI [of _ 0] exI [of _ 1]) auto
  then have "?d 0 1 \<in> set ?ds"
    unfolding pair_distances_set by blast
  then have ne: "?ds \<noteq> []" by (metis empty_iff empty_set)
  have "min_list ?ds = Min (set ?ds)"
    using ne by (rule min_list_Min)
  also have "\<dots> = min_node_distance (unit_nodes grp)"
    unfolding pair_distances_set min_node_distance_def nunit_dofs_def ..
  finally have m: "min_list ?ds = min_node_distance (unit_nodes grp)" .
  obtain x xs where c: "?ds = x # xs"
    using ne by (cases ?ds) auto
  show ?thesis
    using False m c
    by (simp add: min_delta_r_def non_geometric_factor_def Let_def del: min_list.simps)
qed

lemma length_concat_rows:
  "(\<And>r. r \<in> set a \<Longrightarrow> length r = n) \<Longrightarrow> length (concat a) = length a * n"
  by (induction a) simp_all

lemma nth_concat_rows:
  "(\<And>r. r \<in> set a \<Longrightarrow> length r = n) \<Longrightarrow> k < length a \<Longrightarrow> j < n
     \<Longrightarrow> concat a ! (k * n + j) = a ! k ! j"
proof (induction a arbitrary: k)
  case Nil
  then show ?case by simp
next
  case (Cons r a)
  have lr: "length r = n" using Cons.prems(1) by simp
  show ?case
  proof (cases k)
    case 0
    then show ?thesis using lr Cons.prems(3) by (simp add: nth_append)
  next
    case (Suc k')
    have "concat a ! (k' * n + j) = a ! k' ! j"
      using Cons.prems Suc by (intro Cons.IH) auto
    then show ?thesis
      using lr Suc by (simp add: nth_append add.assoc [symmetric] add.commute)
  qed
qed

lemma sum_list_const_upt: "sum_list (map (\<lambda>j. c) [0..<n]) = real n * (c::real)"
  by (induction n) (simp_all add: algebra_simps)

lemma face_rows:
  assumes fi: "face_integrals vgrp afgrp a F"
    and f: "f < nfaces vgrp" and e: "e < nelements vgrp"
  shows "f * nelements vgrp + e < length a"
    and "map (map abs) a ! (f * nelements vgrp + e) = replicate (nunit_dofs afgrp) \<bar>F f e\<bar>"
proof -
  let ?ne = "nelements vgrp"
  have "f * ?ne + e < f * ?ne + ?ne" using e by simp
  also have "\<dots> = Suc f * ?ne" by simp
  also have "\<dots> \<le> nfaces vgrp * ?ne"
    using f by (intro mult_le_mono1) simp
  finally show lt: "f * ?ne + e < length a"
    using fi by (simp add: face_integrals_def)
  show "map (map abs) a ! (f * ?ne + e) = replicate (nunit_dofs afgrp) \<bar>F f e\<bar>"
    using lt fi f e by (simp add: face_integrals_def)
qed

lemma face_row_lengths:
  assumes fi: "face_integrals vgrp afgrp a F" and r: "r \<in> set (map (map abs) a)"
  shows "length r = nunit_dofs afgrp"
proof -
  let ?ne = "nelements vgrp"
  obtain k where k: "k < length a" and rk: "r = map abs (a ! k)"
    using r by (auto simp: in_set_conv_nth)
  have kn: "k < nfaces vgrp * ?ne"
    using k fi by (simp add: face_integrals_def)
  then have ne: "0 < ?ne" by (cases "?ne = 0") auto
  have f: "k div ?ne < nfaces vgrp"
    using kn ne by (simp add: less_mult_imp_div_less)
  have e: "k mod ?ne < ?ne" using ne by simp
  have "a ! (k div ?ne * ?ne + k mod ?ne) = replicate (nunit_dofs afgrp) (F (k div ?ne) (k mod ?ne))"
    using fi f e unfolding face_integrals_def by blast
  then have "a ! k = replicate (nunit_dofs afgrp) (F (k div ?ne) (k mod ?ne))"
    by simp
  then show ?thesis using rk by simp
qed

lemma surface_area_group:
  assumes fi: "face_integrals vgrp afgrp a F" and pos: "0 < nunit_dofs afgrp"
  shows "bind_err (reshape3 (nfaces vgrp) (nelements vgrp) (nunit_dofs afgrp) (map (map abs) a))
           (\<lambda>t. Inr (map (\<lambda>x. x / real (nunit_dofs afgrp)) (einsum_fej_e (nelements vgrp) t)))
         = Inr (map (\<lambda>e. sum_list (map (\<lambda>f. \<bar>F f e\<bar>) [0..<nfaces vgrp])) [0..<nelements vgrp])"
proof -
  let ?nf = "nfaces vgrp" and ?ne = "nelements vgrp" and ?nj = "nunit_dofs afgrp"
  let ?a = "map (map abs) a"
  have rows: "\<And>r. r \<in> set ?a \<Longrightarrow> length r = ?nj"
    using fi by (rule face_row_lengths)
  have "length (concat ?a) = length ?a * ?nj"
    by (rule length_concat_rows) (rule rows)
  then have len: "length (concat ?a) = ?nf * ?ne * ?nj"
    using fi by (simp add: face_integrals_def)
  have entry: "concat ?a ! ((f * ?ne + e) * ?nj + j) = \<bar>F f e\<bar>"
    if "f < ?nf" "e < ?ne" "j < ?nj" for f e j
  proof -
    have "concat ?a ! ((f * ?ne + e) * ?nj + j) = ?a ! (f * ?ne + e) ! j"
      using face_rows(1) [OF fi that(1,2)] that(3) by (intro nth_concat_rows rows) simp_all
    then show ?thesis
      using face_rows(2) [OF fi that(1,2)] that(3) by simp
  qed
  have t: "reshape3 ?nf ?ne ?nj ?a
             = Inr (map (\<lambda>f. map (\<lambda>e. map (\<lambda>j. \<bar>F f e\<bar>) [0..<?nj]) [0..<?ne]) [0..<?nf])"
    using len entry by (simp add: reshape3_def Let_def)
  have s: "sum_list (map (\<lambda>fa. sum_list (fa ! e))
                      (map (\<lambda>f. map (\<lambda>e. map (\<lambda>j. \<bar>F f e\<bar>) [0..<?nj]) [0..<?ne]) [0..<?nf]))
             / real ?nj
           = sum_list (map (\<lambda>f. \<bar>F f e\<bar>) [0..<?nf])"
    if "e < ?ne" for e
  proof -
    have "sum_list (map (\<lambda>fa. sum_list (fa ! e))
                      (map (\<lambda>f. map (\<lambda>e. map (\<lambda>j. \<bar>F f e\<bar>) [0..<?nj]) [0..<?ne]) [0..<?nf]))
          = sum_list (map (\<lambda>f. real ?nj * \<bar>F f e\<bar>) [0..<?nf])"
      using that by (simp add: comp_def sum_list_const_upt)
    also have "\<dots> = real ?nj * sum_list (map (\<lambda>f. \<bar>F f e\<bar>) [0..<?nf])"
      by (rule sum_list_const_mult)
    finally show ?thesis using pos by simp
  qed
  show ?thesis
    using s by (simp add: t einsum_fej_e_def)
qed

lemma cell_rows:
  assumes ci: "cell_integrals grp a V" and ls: "length S = nelements grp"
  shows "bind_err (einsum_e_ei (map (\<lambda>x. 1 / x) S) (map (map abs) a))
           (\<lambda>r. Inr (map (map (\<lambda>x. x * real d)) r))
         = Inr (map (\<lambda>e. replicate (nunit_dofs grp) (real d * \<bar>V e\<bar> / (S ! e)))
                  [0..<nelements grp])"
proof -
  have la: "length a = nelements grp"
    using ci by (simp add: cell_integrals_def)
  have "map (map (\<lambda>x. x * real d))
          (map2 (\<lambda>x row. map (\<lambda>v. x * v) row) (map (\<lambda>x. 1 / x) S) (map (map abs) a))
        = map (\<lambda>e. replicate (nunit_dofs grp) (real d * \<bar>V e\<bar> / (S ! e))) [0..<nelements grp]"
    using ci ls la by (intro nth_equalityI) (simp_all add: cell_integrals_def)
  then show ?thesis
    using ls la by (simp add: einsum_e_ei_def)
qed

lemma dt_geometric_factors_value:
  assumes vd: "discr_from_dd dcoll DD_VOLUME = vd"
    and fd: "discr_from_dd dcoll (DOFDesc (Some FACE_RESTR_ALL) DISCR_TAG_BASE) = fd"
    and cv: "elementwise_integral dcoll DD_VOLUME (ones vd) = cv"
    and fa: "elementwise_integral dcoll (DOFDesc (Some FACE_RESTR_ALL) DISCR_TAG_BASE) (ones fd) = fa"
    and simplex: "\<forall>grp\<in>set (groups vd). is_simplex grp"
    and lcv: "length cv = length (groups vd)"
    and V: "\<forall>g<length (groups vd). cell_integrals (groups vd ! g) (cv ! g) (V g)"
    and faces: "dim dcoll \<noteq> 1 \<longrightarrow>
                  length (groups fd) = length (groups vd) \<and> length fa = length (groups vd)
                  \<and> (\<forall>g<length (groups vd).
                        face_integrals (groups vd ! g) (groups fd ! g) (fa ! g) (F g)
                        \<and> 0 < nunit_dofs (groups fd ! g))"
  shows "dt_geometric_factors dcoll None
         = Inr (map (\<lambda>g. map (\<lambda>e. replicate (nunit_dofs (groups vd ! g))
                                   (geometric_factor (dim dcoll) \<bar>V g e\<bar>
                                      (map (\<lambda>f. \<bar>F g f e\<bar>) [0..<nfaces (groups vd ! g)])))
                             [0..<nelements (groups vd ! g)])
                  [0..<length (groups vd)])"
proof -
  let ?n = "length (groups vd)"
  let ?S = "\<lambda>g e. sum_list (map (\<lambda>f. \<bar>F g f e\<bar>) [0..<nfaces (groups vd ! g)])"
  have nosimplex: "\<not> list_ex (\<lambda>grp. \<not> is_simplex grp) (groups vd)"
    using simplex by (simp add: list_ex_iff)
  show ?thesis
  proof (cases "dim dcoll = 1")
    case True
    have "abs_dof cv = map (\<lambda>g. map (\<lambda>e. replicate (nunit_dofs (groups vd ! g)) \<bar>V g e\<bar>)
                                  [0..<nelements (groups vd ! g)]) [0..<?n]"
      unfolding abs_dof_def
    proof (rule nth_equalityI)
      show "length (map (map (map abs)) cv) = length (map (\<lambda>g. map (\<lambda>e. replicate (nunit_dofs (groups vd ! g)) \<bar>V g e\<bar>)
                                  [0..<nelements (groups vd ! g)]) [0..<?n])"
        using lcv by simp
    next
      fix g assume "g < length (map (map (map abs)) cv)"
      then have g: "g < ?n" using lcv by simp
      have ci: "cell_integrals (groups vd ! g) (cv ! g) (V g)" using V g by blast
      have "map (map abs) (cv ! g) = map (\<lambda>e. replicate (nunit_dofs (groups vd ! g)) \<bar>V g e\<bar>)
                                  [0..<nelements (groups vd ! g)]"
        using ci by (intro nth_equalityI) (simp_all add: cell_integrals_def)
      then show "map (map (map abs)) cv ! g = map (\<lambda>g. map (\<lambda>e. replicate (nunit_dofs (groups vd ! g)) \<bar>V g e\<bar>)
                                  [0..<nelements (groups vd ! g)]) [0..<?n] ! g"
        using g lcv by simp
    qed
    then show ?thesis
      using True nosimplex vd cv
      by (simp add: dt_geometric_factors_def Let_def geometric_factor_def)
  next
    case False
    have lfd: "length (groups fd) = ?n" and lfa: "length fa = ?n"
      and fi: "\<And>g. g < ?n \<Longrightarrow> face_integrals (groups vd ! g) (groups fd ! g) (fa ! g) (F g)"
      and pos: "\<And>g. g < ?n \<Longrightarrow> 0 < nunit_dofs (groups fd ! g)"
      using faces False by auto
    let ?z = "zip (groups vd) (zip (groups fd) (abs_dof fa))"
    have lz: "length ?z = ?n"
      using lfd lfa by (simp add: abs_dof_def)
    have step1: "map_err
                   (\<lambda>(vgrp, afgrp, face_ae_i).
                      bind_err (reshape3 (nfaces vgrp) (nelements vgrp) (nunit_dofs afgrp) face_ae_i)
                        (\<lambda>t. Inr (map (\<lambda>x. x / real (nunit_dofs afgrp))
                                      (einsum_fej_e (nelements vgrp) t))))
                   ?z
                 = Inr (map (\<lambda>g. map (?S g) [0..<nelements (groups vd ! g)]) [0..<length ?z])"
    proof (rule map_err_nth)
      fix g assume "g < length ?z"
      then have g: "g < ?n" using lz by simp
      have zg: "?z ! g = (groups vd ! g, groups fd ! g, map (map abs) (fa ! g))"
        using g lfd lfa by (simp add: abs_dof_def)
      show "(case ?z ! g of (vgrp, afgrp, face_ae_i) \<Rightarrow>
               bind_err (reshape3 (nfaces vgrp) (nelements vgrp) (nunit_dofs afgrp) face_ae_i)
                 (\<lambda>t. Inr (map (\<lambda>x. x / real (nunit_dofs afgrp))
                               (einsum_fej_e (nelements vgrp) t))))
            = Inr (map (?S g) [0..<nelements (groups vd ! g)])"
        unfolding zg prod.case by (rule surface_area_group [OF fi [OF g] pos [OF g]])
    qed
    let ?sa = "map (\<lambda>g. map (?S g) [0..<nelements (groups vd ! g)]) [0..<?n]"
    let ?z2 = "zip (abs_dof cv) ?sa"
    have lz2: "length ?z2 = ?n"
      using lcv by (simp add: abs_dof_def)
    have step2: "map_err
                   (\<lambda>(cv_i, sae_i).
                      bind_err (einsum_e_ei (map (\<lambda>x. 1 / x) sae_i) cv_i)
                        (\<lambda>r. Inr (map (map (\<lambda>x. x * real (dim dcoll))) r)))
                   ?z2
                 = Inr (map (\<lambda>g. map (\<lambda>e. replicate (nunit_dofs (groups vd ! g))
                                            (real (dim dcoll) * \<bar>V g e\<bar> / ?S g e))
                                      [0..<nelements (groups vd ! g)])
                          [0..<length ?z2])"
    proof (rule map_err_nth)
      fix g assume "g < length ?z2"
      then have g: "g < ?n" using lz2 by simp
      have zg: "?z2 ! g = (map (map abs) (cv ! g), map (?S g) [0..<nelements (groups vd ! g)])"
        using g lcv by (simp add: abs_dof_def)
      have ci: "cell_integrals (groups vd ! g) (cv ! g) (V g)" using V g by blast
      have "bind_err (einsum_e_ei (map (\<lambda>x. 1 / x) (map (?S g) [0..<nelements (groups vd ! g)]))
                        (map (map abs) (cv ! g)))
              (\<lambda>r. Inr (map (map (\<lambda>x. x * real (dim dcoll))) r))
            = Inr (map (\<lambda>e. replicate (nunit_dofs (groups vd ! g))
                             (real (dim dcoll) * \<bar>V g e\<bar>
                                / (map (?S g) [0..<nelements (groups vd ! g)] ! e)))
                     [0..<nelements (groups vd ! g)])"
        by (rule cell_rows [OF ci]) simp
      also have "\<dots> = Inr (map (\<lambda>e. replicate (nunit_dofs (groups vd ! g))
                                     (real (dim dcoll) * \<bar>V g e\<bar> / ?S g e))
                             [0..<nelements (groups vd ! g)])"
        by simp
      finally show "(case ?z2 ! g of (cv_i, sae_i) \<Rightarrow>
                       bind_err (einsum_e_ei (map (\<lambda>x. 1 / x) sae_i) cv_i)
                         (\<lambda>r. Inr (map (map (\<lambda>x. x * real (dim dcoll))) r)))
                    = Inr (map (\<lambda>e. replicate (nunit_dofs (groups vd ! g))
                                     (real (dim dcoll) * \<bar>V g e\<bar> / ?S g e))
                             [0..<nelements (groups vd ! g)])"
        unfolding zg prod.case .
    qed
    have dt: "discretization_tag DD_VOLUME = DISCR_TAG_BASE"
      by (simp add: DD_VOLUME_def)
    show ?thesis
      using False nosimplex
      by (simp add: dt_geometric_factors_def Let_def dt vd fd cv fa
                    step1 [unfolded lz] step2 [unfolded lz2] geometric_factor_def inradius_def)
  qed
qed

lemma interval_min_delta: "min_delta_r interval_group = Inr 2"
  by (simp add: min_delta_r_def interval_group_def empty_group_def nunit_dofs_def
                node_dist_def norm2_def Let_def)

lemma triangle_min_delta: "min_delta_r triangle_group = Inr 2"
proof -
  have "2 \<le> sqrt 8" by (rule real_le_rsqrt) simp
  then show ?thesis
    by (simp add: min_delta_r_def triangle_group_def empty_group_def nunit_dofs_def
                node_dist_def norm2_def Let_def upt_rec)
qed

lemma interval_group_facts:
  "is_simplex interval_group" "order interval_group = 1" "nelements interval_group = 1"
  "nunit_dofs interval_group = 2" "nfaces interval_group = 2"
  by (simp_all add: interval_group_def empty_group_def nunit_dofs_def)

lemma triangle_group_facts:
  "is_simplex triangle_group" "order triangle_group = 1" "nelements triangle_group = 1"
  "nunit_dofs triangle_group = 3" "nfaces triangle_group = 3"
  by (simp_all add: triangle_group_def empty_group_def nunit_dofs_def)

lemma interval_min_node_distance: "min_node_distance (unit_nodes interval_group) = 2"
proof -
  have a: "min_delta_r interval_group = Inr (non_geometric_factor interval_group)"
    by (rule min_delta_r_value) (simp add: interval_group_facts)
  have b: "non_geometric_factor interval_group = min_node_distance (unit_nodes interval_group)"
    by (simp add: non_geometric_factor_def interval_group_facts)
  show ?thesis
    using a b interval_min_delta by simp
qed

text \<open>
  C2 (amended). The groups of the volume discretization are simplices with enough
  nodes; the elementwise integral of one is \<open>V g e\<close> at every node of element \<open>e\<close> of
  group \<open>g\<close>, and on the faces it is \<open>F g f e\<close> at every node of face \<open>f\<close> of that element
  (the faces of a group are stored face by face), and no element has surface area
  zero. Then \<open>characteristic_lengthscales\<close>
  returns, at every node of every element, the product of the group's non-geometric
  factor and the element's geometric factor, where
  \<^item> the non-geometric factor is the least distance between two distinct reference
    nodes for a group of order at least one, and the distance of the single node from
    the first reference vertex for a group of order zero;
  \<^item> the geometric factor is the inradius \<open>d |V| / (|F\<^sub>1| + \<dots> + |F\<^sub>n|)\<close> when the
    dimension \<open>d\<close> of the collection is not one, and the cell volume \<open>|V|\<close> itself when
    it is one.
\<close>

theorem characteristic_lengthscales_value:
  assumes vd: "discr_from_dd dcoll DD_VOLUME = vd"
    and fd: "discr_from_dd dcoll (DOFDesc (Some FACE_RESTR_ALL) DISCR_TAG_BASE) = fd"
    and cv: "elementwise_integral dcoll DD_VOLUME (ones vd) = cv"
    and fa: "elementwise_integral dcoll (DOFDesc (Some FACE_RESTR_ALL) DISCR_TAG_BASE) (ones fd) = fa"
    and simplex: "\<forall>grp\<in>set (groups vd). is_simplex grp"
    and nodes: "\<forall>grp\<in>set (groups vd).
                  if order grp = 0 then nunit_dofs grp = 1 \<and> vertex_unit_coordinates grp \<noteq> []
                  else 2 \<le> nunit_dofs grp"
    and lcv: "length cv = length (groups vd)"
    and V: "\<forall>g<length (groups vd). cell_integrals (groups vd ! g) (cv ! g) (V g)"
    and faces: "dim dcoll \<noteq> 1 \<longrightarrow>
                  length (groups fd) = length (groups vd) \<and> length fa = length (groups vd)
                  \<and> (\<forall>g<length (groups vd).
                        face_integrals (groups vd ! g) (groups fd ! g) (fa ! g) (F g)
                        \<and> 0 < nunit_dofs (groups fd ! g)
                        \<and> (\<forall>e<nelements (groups vd ! g).
                              0 < sum_list (map (\<lambda>f. \<bar>F g f e\<bar>)
                                              [0..<nfaces (groups vd ! g)])))"
  shows "characteristic_lengthscales actx dcoll
         = Inr (map (\<lambda>g. map (\<lambda>e. replicate (nunit_dofs (groups vd ! g))
                                   (non_geometric_factor (groups vd ! g)
                                    * geometric_factor (dim dcoll) \<bar>V g e\<bar>
                                        (map (\<lambda>f. \<bar>F g f e\<bar>) [0..<nfaces (groups vd ! g)])))
                             [0..<nelements (groups vd ! g)])
                  [0..<length (groups vd)])"
proof -
  let ?n = "length (groups vd)"
  have ng: "dt_non_geometric_factors dcoll None = Inr (map non_geometric_factor (groups vd))"
    unfolding dt_non_geometric_factors_def Let_def option.case vd
    by (rule map_err_all) (use nodes in \<open>auto intro!: min_delta_r_value\<close>)
  have geo: "dt_geometric_factors dcoll None
         = Inr (map (\<lambda>g. map (\<lambda>e. replicate (nunit_dofs (groups vd ! g))
                                   (geometric_factor (dim dcoll) \<bar>V g e\<bar>
                                      (map (\<lambda>f. \<bar>F g f e\<bar>) [0..<nfaces (groups vd ! g)])))
                             [0..<nelements (groups vd ! g)])
                  [0..<?n])"
    using vd fd cv fa simplex lcv V
  proof (rule dt_geometric_factors_value)
    show "dim dcoll \<noteq> 1 \<longrightarrow>
            length (groups fd) = length (groups vd) \<and> length fa = length (groups vd)
            \<and> (\<forall>g<length (groups vd).
                  face_integrals (groups vd ! g) (groups fd ! g) (fa ! g) (F g)
                  \<and> 0 < nunit_dofs (groups fd ! g))"
      using faces by blast
  qed
  let ?G = "\<lambda>g. map (\<lambda>e. replicate (nunit_dofs (groups vd ! g))
                                   (geometric_factor (dim dcoll) \<bar>V g e\<bar>
                                      (map (\<lambda>f. \<bar>F g f e\<bar>) [0..<nfaces (groups vd ! g)])))
                             [0..<nelements (groups vd ! g)]"
  have "map2 (\<lambda>cng geo_facts. map (map (\<lambda>x. cng * x)) geo_facts)
          (map non_geometric_factor (groups vd)) (map ?G [0..<?n])
        = map (\<lambda>g. map (\<lambda>e. replicate (nunit_dofs (groups vd ! g))
                                   (non_geometric_factor (groups vd ! g)
                                    * geometric_factor (dim dcoll) \<bar>V g e\<bar>
                                        (map (\<lambda>f. \<bar>F g f e\<bar>) [0..<nfaces (groups vd ! g)])))
                             [0..<nelements (groups vd ! g)])
                  [0..<?n]"
    by (rule nth_equalityI) simp_all
  then show ?thesis
    unfolding characteristic_lengthscales_def ng geo bind_err_Inr by (rule arg_cong)
qed

theorem characteristic_lengthscales_value_witness:
  "groups (discr_from_dd (example_dcoll 2) DD_VOLUME) = [triangle_group]
   \<and> is_simplex triangle_group
   \<and> dim (example_dcoll 2) \<noteq> 1
   \<and> characteristic_lengthscales ArrayContext (example_dcoll 2) = Inr [[[2, 2, 2]]]"
proof -
  let ?vd = "\<lparr>groups = [triangle_group], discr_dim = 2, discr_ambient_dim = 2\<rparr>"
  let ?fd = "\<lparr>groups = [edge_group], discr_dim = 1, discr_ambient_dim = 2\<rparr>"
  let ?cv = "[[[6, 6, 6]]] :: DOFArray"
  let ?fa = "[[[3, 3], [4, 4], [5, 5]]] :: DOFArray"
  let ?V = "\<lambda>(g::nat) (e::nat). 6 :: real"
  let ?F = "\<lambda>(g::nat) (f::nat) (e::nat). [3, 4, 5 :: real] ! f"
  have vd: "discr_from_dd (example_dcoll 2) DD_VOLUME = ?vd"
    by (simp add: example_dcoll_def DD_VOLUME_def)
  have fd: "discr_from_dd (example_dcoll 2) (DOFDesc (Some FACE_RESTR_ALL) DISCR_TAG_BASE) = ?fd"
    by (simp add: example_dcoll_def)
  have cv: "elementwise_integral (example_dcoll 2) DD_VOLUME (ones ?vd) = ?cv"
    by (simp add: example_dcoll_def DD_VOLUME_def)
  have fa: "elementwise_integral (example_dcoll 2)
              (DOFDesc (Some FACE_RESTR_ALL) DISCR_TAG_BASE) (ones ?fd) = ?fa"
    by (simp add: example_dcoll_def)
  have simplex: "\<forall>grp\<in>set (groups ?vd). is_simplex grp"
    by (simp add: triangle_group_def empty_group_def)
  have nodes: "\<forall>grp\<in>set (groups ?vd).
                  if order grp = 0 then nunit_dofs grp = 1 \<and> vertex_unit_coordinates grp \<noteq> []
                  else 2 \<le> nunit_dofs grp"
    by (simp add: triangle_group_def empty_group_def nunit_dofs_def)
  have lcv: "length ?cv = length (groups ?vd)" by simp
  have V: "\<forall>g<length (groups ?vd). cell_integrals (groups ?vd ! g) (?cv ! g) (?V g)"
    by (simp add: cell_integrals_def triangle_group_def empty_group_def nunit_dofs_def
                  numeral_3_eq_3)
  have faces: "dim (example_dcoll 2) \<noteq> 1 \<longrightarrow>
                  length (groups ?fd) = length (groups ?vd) \<and> length ?fa = length (groups ?vd)
                  \<and> (\<forall>g<length (groups ?vd).
                        face_integrals (groups ?vd ! g) (groups ?fd ! g) (?fa ! g) (?F g)
                        \<and> 0 < nunit_dofs (groups ?fd ! g)
                        \<and> (\<forall>e<nelements (groups ?vd ! g).
                              0 < sum_list (map (\<lambda>f. \<bar>?F g f e\<bar>)
                                              [0..<nfaces (groups ?vd ! g)])))"
    by (simp add: face_integrals_def triangle_group_def edge_group_def empty_group_def
                  nunit_dofs_def numeral_2_eq_2 numeral_3_eq_3 less_Suc_eq)
  have ngf: "non_geometric_factor triangle_group = 2"
    using min_delta_r_value [of triangle_group] triangle_min_delta
    by (simp add: triangle_group_facts)
  have "characteristic_lengthscales ArrayContext (example_dcoll 2) = Inr [[[2, 2, 2]]]"
    using characteristic_lengthscales_value
            [OF vd fd cv fa simplex nodes lcv V faces, of ArrayContext]
    by (simp add: ngf geometric_factor_def inradius_def triangle_group_facts upt_rec
                  example_dcoll_def numeral_3_eq_3)
  then show ?thesis
    using simplex by (simp add: vd) (simp add: example_dcoll_def)
qed

text \<open>
  C2, counterexample. The claim as stated fails in one dimension: on an interval of length 3 with two
  reference nodes at distance 2 and two point faces of measure 1, the code returns
  \<open>2 \<cdot> 3 = 6\<close> at both nodes, where the product with the inradius
  \<open>1 \<cdot> 3 / (1 + 1)\<close> is 3.
\<close>

theorem characteristic_lengthscales_1d_counterexample:
  "characteristic_lengthscales ArrayContext (example_dcoll 1) = Inr [[[6, 6]]]
   \<and> min_node_distance (unit_nodes interval_group) * inradius 1 3 [1, 1] = 3"
proof -
  have "characteristic_lengthscales ArrayContext (example_dcoll 1) = Inr [[[6, 6]]]"
    by (simp add: characteristic_lengthscales_def dt_non_geometric_factors_def
          dt_geometric_factors_def example_dcoll_def DD_VOLUME_def interval_min_delta
          interval_group_facts Let_def abs_dof_def ones_def)
  then show ?thesis
    by (simp add: interval_min_node_distance inradius_def)
qed

text \<open>
  C5. When the requested volume discretization contains a group that is not a
  simplex group, \<open>dt_geometric_factors\<close> raises \<open>NotImplementedError\<close>; no factor
  is computed by another formula.
\<close>

theorem dt_geometric_factors_rejects_non_simplex:
  assumes "\<exists>grp\<in>set (groups (discr_from_dd dcoll (case dd of None \<Rightarrow> DD_VOLUME | Some d \<Rightarrow> d))).
             \<not> is_simplex grp"
  shows "dt_geometric_factors dcoll dd
         = Inl (NotImplementedError
                  ''Geometric factors are only implemented for simplex element groups'')"
  using assms by (simp add: dt_geometric_factors_def Let_def list_ex_iff)

theorem dt_geometric_factors_rejects_non_simplex_witness:
  "(\<exists>grp\<in>set (groups (discr_from_dd example_dcoll_quads DD_VOLUME)). \<not> is_simplex grp)
   \<and> dt_geometric_factors example_dcoll_quads None
       = Inl (NotImplementedError
                ''Geometric factors are only implemented for simplex element groups'')"
proof -
  have h: "\<exists>grp\<in>set (groups (discr_from_dd example_dcoll_quads
                                  (case None of None \<Rightarrow> DD_VOLUME | Some d \<Rightarrow> d))).
             \<not> is_simplex grp"
    by (simp add: example_dcoll_quads_def)
  show ?thesis
    using h dt_geometric_factors_rejects_non_simplex [OF h] by simp
qed

text \<open>
  C6 (amended). A flux type that is not supported never yields a flux: the call raises.
  The error names the unsupported value once the computations that the code performs
  before it looks at the flux type have succeeded: \<open>burgers_numerical_flux\<close> raises
  \<open>NotImplementedError\<close> for a value that is neither \<open>central\<close> nor \<open>lf\<close> after
  lower-casing, once the normal has been thawed, the wave speed projected to the faces
  and \<open>central\<close> computed; the constructor of \<open>InviscidBurgers\<close> raises \<open>NotImplementedError\<close> for
  a value outside \<open>flux_types\<close>; and \<open>WeakWaveOperator.flux\<close> raises \<open>ValueError\<close> for a
  value that is neither \<open>central\<close> nor \<open>upwind\<close>, once the trace pair has been indexed,
  the array context read, the normal thawed and \<open>central_flux_weak\<close> computed.
\<close>

lemma raises_bindI: "(\<And>x. raises (f x)) \<Longrightarrow> raises (bind_err m f)"
  by (cases m) (simp_all add: raises_def)

theorem unknown_flux_type_rejected:
  "(lower t \<noteq> ''central'' \<and> lower t \<noteq> ''lf''
    \<longrightarrow> raises (burgers_numerical_flux ar actx dcoll t u_tpair mw)
        \<and> (normal dcoll (tp_dd u_tpair) = Inr n
             \<and> thaw ar (ActxArg actx) (AryArg n) = Inr nrm
             \<and> fst (project dcoll (OfName ''vol'') (OfDesc (tp_dd u_tpair)) mw []) = Inr mw'
             \<and> burgers_central ar u_tpair nrm = Inr c
           \<longrightarrow> burgers_numerical_flux ar actx dcoll t u_tpair mw
                 = Inl (NotImplementedError
                          (''flux '' @ [CHR 0x27] @ lower t @ [CHR 0x27]
                             @ '' is not implemented''))))
   \<and> (flux_type \<notin> set flux_types
    \<longrightarrow> InviscidBurgers_init actx dcoll flux_type
          = Inl (NotImplementedError
                   (''unknown flux type: '' @ [CHR 0x27] @ flux_type @ [CHR 0x27])))
   \<and> (w_flux_type self \<noteq> ''central'' \<and> w_flux_type self \<noteq> ''upwind''
    \<longrightarrow> raises (flux ar self wtpair)
        \<and> (tp_first wtpair = Inr u \<and> array_context (interior u) = Inr actx'
             \<and> normal (w_dcoll self) (otp_dd wtpair) = Inr wn
             \<and> thaw ar (AryArg wn) (ActxArg actx') = Inr wnrm
             \<and> central_flux_weak ar (w_c self) u (tp_rest wtpair) wnrm = Inr cw
           \<longrightarrow> flux ar self wtpair
                 = Inl (ValueError
                          (''invalid flux type '' @ [CHR 0x27] @ w_flux_type self
                             @ [CHR 0x27]))))"
proof (intro conjI impI)
  assume t: "lower t \<noteq> ''central'' \<and> lower t \<noteq> ''lf''"
  show "raises (burgers_numerical_flux ar actx dcoll t u_tpair mw)"
    unfolding burgers_numerical_flux_def Let_def
    using t by (intro raises_bindI) (simp add: raises_def)
next
  assume t: "lower t \<noteq> ''central'' \<and> lower t \<noteq> ''lf''"
    and h: "normal dcoll (tp_dd u_tpair) = Inr n
             \<and> thaw ar (ActxArg actx) (AryArg n) = Inr nrm
             \<and> fst (project dcoll (OfName ''vol'') (OfDesc (tp_dd u_tpair)) mw []) = Inr mw'
             \<and> burgers_central ar u_tpair nrm = Inr c"
  show "burgers_numerical_flux ar actx dcoll t u_tpair mw
          = Inl (NotImplementedError
                   (''flux '' @ [CHR 0x27] @ lower t @ [CHR 0x27] @ '' is not implemented''))"
    using t h by (simp add: burgers_numerical_flux_def Let_def)
next
  assume "flux_type \<notin> set flux_types"
  then show "InviscidBurgers_init actx dcoll flux_type
          = Inl (NotImplementedError
                   (''unknown flux type: '' @ [CHR 0x27] @ flux_type @ [CHR 0x27]))"
    by (simp add: InviscidBurgers_init_def)
next
  assume t: "w_flux_type self \<noteq> ''central'' \<and> w_flux_type self \<noteq> ''upwind''"
  show "raises (flux ar self wtpair)"
    unfolding flux_def Let_def
    using t by (intro raises_bindI) (simp add: raises_def)
next
  assume t: "w_flux_type self \<noteq> ''central'' \<and> w_flux_type self \<noteq> ''upwind''"
    and h: "tp_first wtpair = Inr u \<and> array_context (interior u) = Inr actx'
             \<and> normal (w_dcoll self) (otp_dd wtpair) = Inr wn
             \<and> thaw ar (AryArg wn) (ActxArg actx') = Inr wnrm
             \<and> central_flux_weak ar (w_c self) u (tp_rest wtpair) wnrm = Inr cw"
  show "flux ar self wtpair
          = Inl (ValueError
                   (''invalid flux type '' @ [CHR 0x27] @ w_flux_type self @ [CHR 0x27]))"
    using t h by (simp add: flux_def Let_def)
qed

theorem unknown_flux_type_rejected_witness:
  "(lower ''Upwind'' \<noteq> ''central'' \<and> lower ''Upwind'' \<noteq> ''lf''
    \<and> raises (burgers_numerical_flux example_arithmetic ArrayContext (example_dcoll 1)
                ''Upwind'' example_tpair (Number 1))
    \<and> normal (example_dcoll 1) (tp_dd example_tpair) = Inr (ObjArray [DOFArr [[[1]]]])
    \<and> thaw example_arithmetic (ActxArg ArrayContext) (AryArg (ObjArray [DOFArr [[[1]]]]))
        = Inr (ObjArray [DOFArr [[[1]]]])
    \<and> fst (project (example_dcoll 1) (OfName ''vol'') (OfDesc (tp_dd example_tpair))
              (Number 1) []) = Inr (Number 1)
    \<and> burgers_central example_arithmetic example_tpair (ObjArray [DOFArr [[[1]]]])
        = Inr (DOFArr [[[1]]])
    \<and> burgers_numerical_flux example_arithmetic ArrayContext (example_dcoll 1)
         ''Upwind'' example_tpair (Number 1)
        = Inl (NotImplementedError ''flux 'upwind' is not implemented''))
   \<and> (''upwind'' \<notin> set flux_types
    \<and> InviscidBurgers_init ArrayContext (example_dcoll 1) ''upwind''
        = Inl (NotImplementedError (''unknown flux type: 'upwind'' @ [CHR 0x27])))
   \<and> (w_flux_type (WeakWaveOperator_init (example_dcoll 1) 1 ''lf'') \<noteq> ''central''
    \<and> w_flux_type (WeakWaveOperator_init (example_dcoll 1) 1 ''lf'') \<noteq> ''upwind''
    \<and> raises (flux example_arithmetic (WeakWaveOperator_init (example_dcoll 1) 1 ''lf'')
                example_wtpair)
    \<and> tp_first example_wtpair
        = Inr \<lparr>tp_dd = DOFDesc (Some FACE_RESTR_INTERIOR) DISCR_TAG_BASE,
               interior = DOFArr [[[1]]], exterior = DOFArr [[[3]]]\<rparr>
    \<and> array_context (DOFArr [[[1]]]) = Inr ArrayContext
    \<and> normal (example_dcoll 1) (otp_dd example_wtpair) = Inr (ObjArray [DOFArr [[[1]]]])
    \<and> thaw example_arithmetic (AryArg (ObjArray [DOFArr [[[1]]]])) (ActxArg ArrayContext)
        = Inr (ObjArray [DOFArr [[[1]]]])
    \<and> central_flux_weak example_arithmetic 1
         \<lparr>tp_dd = DOFDesc (Some FACE_RESTR_INTERIOR) DISCR_TAG_BASE,
          interior = DOFArr [[[1]]], exterior = DOFArr [[[3]]]\<rparr>
         (tp_rest example_wtpair) (ObjArray [DOFArr [[[1]]]])
        = Inr (ObjArray [DOFArr [[[2]]], DOFArr [[[1]]]])
    \<and> flux example_arithmetic (WeakWaveOperator_init (example_dcoll 1) 1 ''lf'')
         example_wtpair
        = Inl (ValueError (''invalid flux type 'lf'' @ [CHR 0x27])))"
proof -
  have l: "lower ''Upwind'' = ''upwind''"
    by code_simp
  have n: "normal (example_dcoll 1) (tp_dd example_tpair) = Inr (ObjArray [DOFArr [[[1]]]])"
    "normal (example_dcoll 1) (otp_dd example_wtpair) = Inr (ObjArray [DOFArr [[[1]]]])"
    by (simp_all add: example_dcoll_def)
  have th: "thaw example_arithmetic (ActxArg ArrayContext) (AryArg (ObjArray [DOFArr [[[1]]]]))
        = Inr (ObjArray [DOFArr [[[1]]]])"
    "thaw example_arithmetic (AryArg (ObjArray [DOFArr [[[1]]]])) (ActxArg ArrayContext)
        = Inr (ObjArray [DOFArr [[[1]]]])"
    by (simp_all add: example_arithmetic_def)
  have p: "fst (project (example_dcoll 1) (OfName ''vol'') (OfDesc (tp_dd example_tpair))
              (Number 1) []) = Inr (Number 1)"
    by (simp add: project_def as_dofdesc_def)
  have c: "burgers_central example_arithmetic example_tpair (ObjArray [DOFArr [[[1]]]])
             = Inr (DOFArr [[[1]]])"
    by (simp add: burgers_central_def tp_pow_def tp_rmul_def tp_avg_def example_tpair_def
          example_arithmetic_def first_array_def)
  have f: "tp_first example_wtpair
        = Inr \<lparr>tp_dd = DOFDesc (Some FACE_RESTR_INTERIOR) DISCR_TAG_BASE,
               interior = DOFArr [[[1]]], exterior = DOFArr [[[3]]]\<rparr>"
    by (simp add: tp_first_def example_wtpair_def)
  have a: "array_context (DOFArr [[[1]]]) = Inr ArrayContext"
    by (simp add: array_context_def)
  have w: "central_flux_weak example_arithmetic 1
         \<lparr>tp_dd = DOFDesc (Some FACE_RESTR_INTERIOR) DISCR_TAG_BASE,
          interior = DOFArr [[[1]]], exterior = DOFArr [[[3]]]\<rparr>
         (tp_rest example_wtpair) (ObjArray [DOFArr [[[1]]]])
        = Inr (ObjArray [DOFArr [[[2]]], DOFArr [[[1]]]])"
    by (simp add: central_flux_weak_def tp_avg_def tp_rest_def example_wtpair_def
          example_arithmetic_def first_array_def flat_obj_array_def flat_entries_def)
  show ?thesis
    using unknown_flux_type_rejected
            [where t = "''Upwind''" and dcoll = "example_dcoll 1" and u_tpair = example_tpair
               and mw = "Number 1" and mw' = "Number 1" and actx = ArrayContext
               and ar = example_arithmetic and c = "DOFArr [[[1]]]"
               and n = "ObjArray [DOFArr [[[1]]]]" and nrm = "ObjArray [DOFArr [[[1]]]]"
               and flux_type = "''upwind''"
               and self = "WeakWaveOperator_init (example_dcoll 1) 1 ''lf''"
               and wtpair = example_wtpair
               and u = "\<lparr>tp_dd = DOFDesc (Some FACE_RESTR_INTERIOR) DISCR_TAG_BASE,
                         interior = DOFArr [[[1]]], exterior = DOFArr [[[3]]]\<rparr>"
               and actx' = ArrayContext
               and wn = "ObjArray [DOFArr [[[1]]]]" and wnrm = "ObjArray [DOFArr [[[1]]]]"
               and cw = "ObjArray [DOFArr [[[2]]], DOFArr [[[1]]]]"]
    l n th p c f a w
    by (simp add: flux_types_def WeakWaveOperator_init_def raises_def)
qed

text \<open>
  C6, counterexample. The claim as stated fails for the wave operator: with the flux type \<open>lf\<close> its \<open>flux\<close>
  raises \<open>ValueError\<close>, not \<open>NotImplementedError\<close>.
\<close>

theorem wave_flux_counterexample:
  "flux example_arithmetic (WeakWaveOperator_init (example_dcoll 1) 1 ''lf'') example_wtpair
     = Inl (ValueError (''invalid flux type '' @ [CHR 0x27] @ ''lf'' @ [CHR 0x27]))
   \<and> \<not> is_not_implemented
         (flux example_arithmetic (WeakWaveOperator_init (example_dcoll 1) 1 ''lf'')
            example_wtpair)"
  by (simp add: flux_def WeakWaveOperator_init_def example_wtpair_def tp_first_def
        tp_rest_def array_context_def central_flux_weak_def tp_avg_def
        example_arithmetic_def first_array_def example_dcoll_def flat_obj_array_def
        flat_entries_def Let_def is_not_implemented_def)

text \<open>
  C10. For a collection of dimension other than one the constructor of
  \<open>InviscidBurgers\<close> raises \<open>NotImplementedError\<close> and returns no object: the error
  of the dimension when the flux type is a supported one, the error of the flux type,
  which is checked first, otherwise.
\<close>

theorem InviscidBurgers_only_1d:
  assumes "dim dcoll \<noteq> 1"
  shows "InviscidBurgers_init actx dcoll flux_type =
           Inl (NotImplementedError
                  (if flux_type \<in> set flux_types
                   then ''Burgers operator for dim = '' @ str_nat (dim dcoll) @ '' not implemented''
                   else ''unknown flux type: '' @ [CHR 0x27] @ flux_type @ [CHR 0x27]))"
  using assms by (simp add: InviscidBurgers_init_def)

theorem InviscidBurgers_only_1d_witness:
  "dim (example_dcoll 2) \<noteq> 1
   \<and> InviscidBurgers_init ArrayContext (example_dcoll 2) ''central''
       = Inl (NotImplementedError ''Burgers operator for dim = 2 not implemented'')"
proof -
  have h: "dim (example_dcoll 2) \<noteq> 1"
    by (simp add: example_dcoll_def)
  show ?thesis
    using h InviscidBurgers_only_1d [OF h, of ArrayContext "''central''"]
    by (simp add: example_dcoll_def flux_types_def)
qed

lemma sum_list_map2_nth:
  "length xs = length ys \<Longrightarrow>
     sum_list (map2 f xs ys) = (\<Sum>k<length ys. (f (xs ! k) (ys ! k) :: real))"
  by (simp add: sum_list_sum_nth atLeast0LessThan)

lemma mat_mul_product:
  assumes "mat_mul A B = Inr M"
  shows "M = matrix_product A B"
proof -
  have rows: "\<And>r. r \<in> set A \<Longrightarrow> length r = length B"
    using assms by (auto simp: mat_mul_def list_ex_iff split: if_splits)
  have M: "M = map (\<lambda>r. map (\<lambda>j. sum_list (map2 (\<lambda>a row. a * row ! j) r B)) [0..<ncols B]) A"
    using assms by (auto simp: mat_mul_def split: if_splits)
  show ?thesis
    unfolding M matrix_product_def
    by (rule nth_equalityI) (simp_all add: rows sum_list_map2_nth)
qed

lemma mat_mul_returns:
  "(\<And>r. r \<in> set A \<Longrightarrow> length r = length B) \<Longrightarrow> \<exists>M. mat_mul A B = Inr M"
  by (simp add: mat_mul_def list_ex_iff)

lemma mat_mul_append:
  assumes "mat_mul (A @ A') B = Inr M"
  shows "\<exists>M1 M2. mat_mul A B = Inr M1 \<and> mat_mul A' B = Inr M2 \<and> M = M1 @ M2"
  using assms by (auto simp: mat_mul_def split: if_splits)

lemma mat_mul_concat:
  "mat_mul (concat As) B = Inr M \<Longrightarrow>
     \<exists>Ms. list_all2 (\<lambda>A M'. mat_mul A B = Inr M') As Ms \<and> M = concat Ms"
proof (induction As arbitrary: M)
  case Nil
  then show ?case by (simp add: mat_mul_def)
next
  case (Cons A As)
  from Cons.prems obtain M1 M2
    where 1: "mat_mul A B = Inr M1" and 2: "mat_mul (concat As) B = Inr M2" and M: "M = M1 @ M2"
    using mat_mul_append [of A "concat As" B M] by auto
  from Cons.IH [OF 2] obtain Ms
    where "list_all2 (\<lambda>A M'. mat_mul A B = Inr M') As Ms" and "M2 = concat Ms"
    by blast
  then have "list_all2 (\<lambda>A M'. mat_mul A B = Inr M') (A # As) (M1 # Ms) \<and> M = concat (M1 # Ms)"
    using 1 M by simp
  then show ?case by blast
qed

lemma vandermonde_concat:
  "vandermonde fs (concat ns) = concat (map (vandermonde fs) ns)"
  by (induction ns) (simp_all add: vandermonde_def)

lemma vandermonde_rows: "r \<in> set (vandermonde fs ns) \<Longrightarrow> length r = length fs"
  by (auto simp: vandermonde_def)

lemma volume_matrix_product:
  assumes "volume_quadrature_interpolation_matrix linalg_inv actx base_grp quad_grp = Inr M"
  shows "\<exists>W. linalg_inv (vandermonde (basis_functions base_grp) (unit_nodes base_grp)) = Inr W
           \<and> M = matrix_product (vandermonde (basis_functions base_grp) (unit_nodes quad_grp)) W"
  using assms
  by (auto simp: volume_quadrature_interpolation_matrix_def Let_def bind_err_def
           split: sum.splits dest: mat_mul_product)

lemma surface_matrix_blocks:
  assumes "surface_quadrature_interpolation_matrix linalg_inv actx base_grp quad_face_grp dtype
             = Inr S"
  shows "\<exists>blocks. length blocks = length (shape_faces base_grp) \<and> S = concat blocks
           \<and> (\<forall>f<length (shape_faces base_grp).
                 volume_quadrature_interpolation_matrix linalg_inv actx base_grp
                   (quad_face_grp\<lparr>unit_nodes :=
                      map (shape_faces base_grp ! f) (quadrature_nodes quad_face_grp)\<rparr>)
                 = Inr (blocks ! f))"
proof -
  let ?basis = "basis_functions base_grp"
  let ?faces = "shape_faces base_grp"
  let ?qn = "quadrature_nodes quad_face_grp"
  from assms obtain W
    where W: "linalg_inv (vandermonde ?basis (unit_nodes base_grp)) = Inr W"
      and S: "mat_mul (vandermonde ?basis (concat (map (\<lambda>face. map face ?qn) ?faces))) W = Inr S"
    by (auto simp: surface_quadrature_interpolation_matrix_def Let_def bind_err_def
             split: sum.splits if_splits)
  have "mat_mul (concat (map (\<lambda>face. vandermonde ?basis (map face ?qn)) ?faces)) W = Inr S"
    using S by (simp add: vandermonde_concat comp_def)
  from mat_mul_concat [OF this] obtain blocks
    where b: "list_all2 (\<lambda>A M'. mat_mul A W = Inr M')
                (map (\<lambda>face. vandermonde ?basis (map face ?qn)) ?faces) blocks"
      and c: "S = concat blocks"
    by blast
  have len: "length blocks = length ?faces"
    using b by (auto dest: list_all2_lengthD)
  have "volume_quadrature_interpolation_matrix linalg_inv actx base_grp
          (quad_face_grp\<lparr>unit_nodes := map (?faces ! f) ?qn\<rparr>) = Inr (blocks ! f)"
    if "f < length ?faces" for f
    using list_all2_nthD [OF b, of f] that W
    by (simp add: volume_quadrature_interpolation_matrix_def)
  then show ?thesis
    using len c by blast
qed

lemma interpolation_matrices_return:
  assumes W: "linalg_inv (vandermonde (basis_functions base_grp) (unit_nodes base_grp)) = Inr W"
    and l: "length W = length (basis_functions base_grp)"
  shows "\<exists>M. volume_quadrature_interpolation_matrix linalg_inv actx base_grp quad_grp = Inr M"
    and "nelements quad_face_grp = nfaces base_grp * nelements base_grp
         \<Longrightarrow> shape_faces base_grp \<noteq> []
         \<Longrightarrow> \<exists>S. surface_quadrature_interpolation_matrix linalg_inv actx base_grp
                     quad_face_grp dtype = Inr S"
  using W l
  by (auto simp: volume_quadrature_interpolation_matrix_def
        surface_quadrature_interpolation_matrix_def Let_def
        intro!: mat_mul_returns dest: vandermonde_rows)

text \<open>
  C3. Whenever the volume quadrature interpolation matrix is returned, the inverse \<open>W\<close>
  of the Vandermonde matrix of the basis at the nodes of the base group has been
  computed and the matrix is the product of the Vandermonde matrix of the basis at the
  quadrature nodes with \<open>W\<close>. Whenever the surface variant is returned, it is the
  stack of one block per face of the reference cell, and the block of a face is the
  volume matrix for the nodes of the one face quadrature rule mapped to that face.
  Both are returned when the inverse is and has as many rows as the basis has
  functions (for the surface variant: when also the face group has \<open>nfaces\<close> elements
  per element of the base group, which the source asserts, and the cell has a face).
\<close>

theorem quadrature_interpolation_matrices:
  "(volume_quadrature_interpolation_matrix linalg_inv actx base_grp quad_grp = Inr M
      \<longrightarrow> (\<exists>W. linalg_inv (vandermonde (basis_functions base_grp) (unit_nodes base_grp)) = Inr W
               \<and> M = matrix_product
                        (vandermonde (basis_functions base_grp) (unit_nodes quad_grp)) W))
   \<and> (surface_quadrature_interpolation_matrix linalg_inv actx base_grp quad_face_grp dtype
        = Inr S
      \<longrightarrow> (\<exists>blocks. length blocks = length (shape_faces base_grp) \<and> S = concat blocks
             \<and> (\<forall>f<length (shape_faces base_grp).
                   volume_quadrature_interpolation_matrix linalg_inv actx base_grp
                     (quad_face_grp\<lparr>unit_nodes :=
                        map (shape_faces base_grp ! f) (quadrature_nodes quad_face_grp)\<rparr>)
                   = Inr (blocks ! f))))
   \<and> (linalg_inv (vandermonde (basis_functions base_grp) (unit_nodes base_grp)) = Inr W'
        \<and> length W' = length (basis_functions base_grp)
      \<longrightarrow> (\<exists>M'. volume_quadrature_interpolation_matrix linalg_inv actx base_grp quad_grp
                   = Inr M')
          \<and> (nelements quad_face_grp = nfaces base_grp * nelements base_grp
               \<and> shape_faces base_grp \<noteq> []
             \<longrightarrow> (\<exists>S'. surface_quadrature_interpolation_matrix linalg_inv actx base_grp
                          quad_face_grp dtype = Inr S')))"
proof (intro conjI impI)
  assume "volume_quadrature_interpolation_matrix linalg_inv actx base_grp quad_grp = Inr M"
  then show "\<exists>W. linalg_inv (vandermonde (basis_functions base_grp) (unit_nodes base_grp)) = Inr W
               \<and> M = matrix_product
                        (vandermonde (basis_functions base_grp) (unit_nodes quad_grp)) W"
    by (rule volume_matrix_product)
next
  assume "surface_quadrature_interpolation_matrix linalg_inv actx base_grp quad_face_grp dtype
            = Inr S"
  then show "\<exists>blocks. length blocks = length (shape_faces base_grp) \<and> S = concat blocks
             \<and> (\<forall>f<length (shape_faces base_grp).
                   volume_quadrature_interpolation_matrix linalg_inv actx base_grp
                     (quad_face_grp\<lparr>unit_nodes :=
                        map (shape_faces base_grp ! f) (quadrature_nodes quad_face_grp)\<rparr>)
                   = Inr (blocks ! f))"
    by (rule surface_matrix_blocks)
next
  assume a: "linalg_inv (vandermonde (basis_functions base_grp) (unit_nodes base_grp)) = Inr W'
        \<and> length W' = length (basis_functions base_grp)"
  then show "\<exists>M'. volume_quadrature_interpolation_matrix linalg_inv actx base_grp quad_grp
                   = Inr M'"
    by (intro interpolation_matrices_return(1) [of linalg_inv base_grp W']) simp_all
  assume "nelements quad_face_grp = nfaces base_grp * nelements base_grp
               \<and> shape_faces base_grp \<noteq> []"
  with a show "\<exists>S'. surface_quadrature_interpolation_matrix linalg_inv actx base_grp
                          quad_face_grp dtype = Inr S'"
    by (intro interpolation_matrices_return(2) [of linalg_inv base_grp W']) simp_all
qed

lemma example_basis_vandermonde:
  "vandermonde (basis_functions example_basis_group) (unit_nodes example_basis_group)
     = [[1, - 1], [1, 1]]"
  by (simp add: vandermonde_def example_basis_group_def interval_group_def empty_group_def)

theorem quadrature_interpolation_matrices_witness:
  "volume_quadrature_interpolation_matrix example_inv ArrayContext example_basis_group
      example_quad_group = Inr [[1 / 2, 1 / 2], [1 / 4, 3 / 4]]
   \<and> [[1 / 2, 1 / 2], [1 / 4, 3 / 4]]
       = matrix_product
           (vandermonde (basis_functions example_basis_group) (unit_nodes example_quad_group))
           [[1 / 2, 1 / 2], [- 1 / 2, 1 / 2]]
   \<and> surface_quadrature_interpolation_matrix example_inv ArrayContext example_basis_group
        example_face_quad_group ''float64'' = Inr [[1, 0], [0, 1]]
   \<and> (\<exists>blocks. length blocks = length (shape_faces example_basis_group)
         \<and> [[1, 0], [0, 1]] = concat blocks
         \<and> (\<forall>f<length (shape_faces example_basis_group).
               volume_quadrature_interpolation_matrix example_inv ArrayContext
                 example_basis_group
                 (example_face_quad_group\<lparr>unit_nodes :=
                    map (shape_faces example_basis_group ! f)
                      (quadrature_nodes example_face_quad_group)\<rparr>)
               = Inr (blocks ! f)))"
proof -
  have w: "example_inv
             (vandermonde (basis_functions example_basis_group) (unit_nodes example_basis_group))
           = Inr [[1 / 2, 1 / 2], [- 1 / 2, 1 / 2]]"
    by (simp add: example_basis_vandermonde example_inv_def)
  have g: "basis_functions example_basis_group = [\<lambda>x. 1, \<lambda>x. x ! 0]"
    "shape_faces example_basis_group = [\<lambda>x. [- 1], \<lambda>x. [1]]"
    "nfaces example_basis_group = 2" "nelements example_basis_group = 1"
    "unit_nodes example_quad_group = [[0], [1 / 2]]"
    "quadrature_nodes example_face_quad_group = [[]]"
    "nelements example_face_quad_group = 2"
    by (simp_all add: example_basis_group_def example_quad_group_def
          example_face_quad_group_def point_group_def interval_group_def empty_group_def)
  have v: "volume_quadrature_interpolation_matrix example_inv ArrayContext example_basis_group
             example_quad_group = Inr [[1 / 2, 1 / 2], [1 / 4, 3 / 4]]"
    unfolding volume_quadrature_interpolation_matrix_def Let_def w bind_err_Inr
    by (simp add: g vandermonde_def mat_mul_def ncols_def upt_rec)
  have s: "surface_quadrature_interpolation_matrix example_inv ArrayContext example_basis_group
             example_face_quad_group ''float64'' = Inr [[1, 0], [0, 1]]"
    unfolding surface_quadrature_interpolation_matrix_def Let_def w bind_err_Inr
    by (simp add: g vandermonde_def mat_mul_def ncols_def upt_rec)
  show ?thesis
    using v s w
      quadrature_interpolation_matrices
        [of example_inv ArrayContext example_basis_group example_quad_group
            "[[1 / 2, 1 / 2], [1 / 4, 3 / 4]]" example_face_quad_group "''float64''"
            "[[1, 0], [0, 1]]" "[[1 / 2, 1 / 2], [- 1 / 2, 1 / 2]]"]
    by simp
qed

lemma mismatch_fields:
  "dd_out \<noteq> dd_in \<Longrightarrow>
     apply_inverse_sbp_mass_operator dcoll dd_out dd_in vec
       = (if has_entry vec then Inl (ValueError mismatch_message) else Inr vec)"
  "dd_out \<noteq> dd_in \<Longrightarrow>
     apply_inverse_sbp_mass_operator_els dcoll dd_out dd_in vs
       = (if list_ex has_entry vs then Inl (ValueError mismatch_message) else Inr vs)"
  by (induction dcoll dd_out dd_in vec and dcoll dd_out dd_in vs
        rule: apply_inverse_sbp_mass_operator_apply_inverse_sbp_mass_operator_els.induct)
     simp_all

lemma call_fails:
  "quadrature_based_inverse_mass_matrix_call actx grp \<noteq> Inl (ValueError mismatch_message)"
  by (simp add: quadrature_based_inverse_mass_matrix_call_def bind_arguments_def)

lemma groups_never_mismatch:
  "map_err (\<lambda>(grp, jac_inv, vec_i).
              bind_err (quadrature_based_inverse_mass_matrix_call actx grp)
                (\<lambda>m. Inr (einsum_ei_ij_ej jac_inv m vec_i))) zs
     \<noteq> Inl (ValueError mismatch_message)"
proof (induction zs)
  case Nil
  then show ?case by simp
next
  case (Cons z zs)
  obtain grp jac_inv vec_i where z: "z = (grp, jac_inv, vec_i)"
    by (cases z) auto
  show ?case
    using Cons call_fails [of actx grp]
    by (auto simp: z bind_err_def split: sum.splits)
qed

lemma matching_fields:
  "dd_out = dd_in \<Longrightarrow>
     apply_inverse_sbp_mass_operator dcoll dd_out dd_in vec \<noteq> Inl (ValueError mismatch_message)"
  "dd_out = dd_in \<Longrightarrow>
     apply_inverse_sbp_mass_operator_els dcoll dd_out dd_in vs
       \<noteq> Inl (ValueError mismatch_message)"
proof (induction dcoll dd_out dd_in vec and dcoll dd_out dd_in vs
        rule: apply_inverse_sbp_mass_operator_apply_inverse_sbp_mass_operator_els.induct)
  case (3 dcoll dd_out dd_in vec)
  then show ?case
    using groups_never_mismatch by (auto simp: Let_def split: sum.splits)
qed (auto split: sum.splits)

text \<open>
  C4 (amended). For descriptors \<open>dd_out \<noteq> dd_in\<close> and a field with at least one entry
  (a \<open>DOFArray\<close> or a number, at any depth of object arrays), the inverse mass
  operator raises the \<open>ValueError\<close> of mismatched descriptors, and no group is
  processed. For \<open>dd_out = dd_in\<close>, and so for \<open>inverse_sbp_mass\<close>, that error is never
  raised.
\<close>

theorem inverse_sbp_mass_descriptor_check:
  "(dd_out \<noteq> dd_in \<and> has_entry vec
      \<longrightarrow> apply_inverse_sbp_mass_operator dcoll dd_out dd_in vec
            = Inl (ValueError mismatch_message))
   \<and> (dd_out = dd_in
      \<longrightarrow> apply_inverse_sbp_mass_operator dcoll dd_out dd_in vec
            \<noteq> Inl (ValueError mismatch_message))
   \<and> inverse_sbp_mass dcoll vec \<noteq> Inl (ValueError mismatch_message)"
  by (simp add: mismatch_fields(1) matching_fields(1) inverse_sbp_mass_def)

theorem inverse_sbp_mass_descriptor_check_witness:
  "(DD_VOLUME \<noteq> DOFDesc (Some FACE_RESTR_ALL) DISCR_TAG_BASE
    \<and> has_entry (ObjArray [ObjArray [], DOFArr [[[1, 2, 3]]]])
    \<and> apply_inverse_sbp_mass_operator (example_dcoll 2) DD_VOLUME
          (DOFDesc (Some FACE_RESTR_ALL) DISCR_TAG_BASE)
          (ObjArray [ObjArray [], DOFArr [[[1, 2, 3]]]])
        = Inl (ValueError mismatch_message))
   \<and> apply_inverse_sbp_mass_operator (example_dcoll 2) DD_VOLUME DD_VOLUME (DOFArr [])
        = Inr (DOFArr [])
   \<and> apply_inverse_sbp_mass_operator (example_dcoll 2) DD_VOLUME DD_VOLUME (DOFArr [])
        \<noteq> Inl (ValueError mismatch_message)"
proof -
  have a: "DD_VOLUME \<noteq> DOFDesc (Some FACE_RESTR_ALL) DISCR_TAG_BASE"
    by (simp add: DD_VOLUME_def)
  have b: "has_entry (ObjArray [ObjArray [], DOFArr [[[1, 2, 3]]]])"
    by simp
  have c: "apply_inverse_sbp_mass_operator (example_dcoll 2) DD_VOLUME DD_VOLUME (DOFArr [])
        = Inr (DOFArr [])"
    by simp
  show ?thesis
    using a b c
      inverse_sbp_mass_descriptor_check
        [of DD_VOLUME "DOFDesc (Some FACE_RESTR_ALL) DISCR_TAG_BASE"
            "ObjArray [ObjArray [], DOFArr [[[1, 2, 3]]]]" "example_dcoll 2"]
      inverse_sbp_mass_descriptor_check
        [of DD_VOLUME DD_VOLUME "DOFArr []" "example_dcoll 2"]
    by simp
qed

text \<open>
  C4, counterexample. The claim as stated fails on an empty object array: the elementwise recursion comes
  before the comparison of the descriptors, so nothing is raised for descriptors that
  differ.
\<close>

theorem inverse_sbp_mass_empty_array_counterexample:
  "DD_VOLUME \<noteq> DOFDesc (Some FACE_RESTR_ALL) DISCR_TAG_BASE
   \<and> apply_inverse_sbp_mass_operator (example_dcoll 2) DD_VOLUME
        (DOFDesc (Some FACE_RESTR_ALL) DISCR_TAG_BASE) (ObjArray [])
      = Inr (ObjArray [])
   \<and> \<not> raises (apply_inverse_sbp_mass_operator (example_dcoll 2) DD_VOLUME
                   (DOFDesc (Some FACE_RESTR_ALL) DISCR_TAG_BASE) (ObjArray []))"
  by (simp add: DD_VOLUME_def raises_def)

lemma map_err_head_raises:
  "xs \<noteq> [] \<Longrightarrow> f (hd xs) = Inl e \<Longrightarrow> map_err f xs = Inl e"
  by (cases xs) simp_all

lemma upt_nat_nonempty: "0 < (n::int) \<Longrightarrow> [0..<nat n] \<noteq> [] \<and> hd [0..<nat n] = 0"
  by (simp add: upt_conv_Cons)

lemma import_RefDiffOperator:
  "import_from_operators ''RefDiffOperator'' = Inl (ImportError ''RefDiffOperator'')"
  by (simp add: import_from_operators_def operators_module_names_def)

lemma nth_derivative_import_error:
  "forward_metric_nth_derivative i (AxisIndex r) dd = Inl (ImportError ''RefDiffOperator'')"
  by (simp add: forward_metric_nth_derivative_def import_RefDiffOperator Let_def)

lemma derivative_vector_import_error:
  assumes "0 < ambient_dim"
  shows "forward_metric_derivative_vector ambient_dim r dd
           = Inl (ImportError ''RefDiffOperator'')"
  unfolding forward_metric_derivative_vector_def
  using upt_nat_nonempty [OF assms]
  by (intro map_err_head_raises)
     (simp_all add: forward_metric_derivative_def nth_derivative_import_error)

lemma derivative_mv_import_error:
  assumes "0 < ambient_dim"
  shows "forward_metric_derivative_mv ambient_dim r dd = Inl (ImportError ''RefDiffOperator'')"
  by (simp add: forward_metric_derivative_mv_def derivative_vector_import_error [OF assms])

lemma parametrization_derivative_import_error:
  assumes "0 < ambient_dim" and "0 < sdim"
  shows "parametrization_derivative ambient_dim (Some sdim) dd
           = Inl (ImportError ''RefDiffOperator'')"
proof -
  have "map_err (\<lambda>rst_axis. forward_metric_derivative_mv ambient_dim rst_axis dd)
          [0..<nat sdim] = Inl (ImportError ''RefDiffOperator'')"
    using upt_nat_nonempty [OF assms(2)]
    by (intro map_err_head_raises)
       (simp_all add: derivative_mv_import_error [OF assms(1)])
  then show ?thesis
    using assms(2) by (simp add: parametrization_derivative_def)
qed

lemma surface_normal_import_error:
  assumes "0 < ambient_dim" and "0 < sdim"
  shows "surface_normal ambient_dim (Some sdim) dd = Inl (ImportError ''RefDiffOperator'')"
  by (cases dd)
     (simp_all add: surface_normal_def pseudoscalar_def dd_arg_of_def as_dofdesc_def
        parametrization_derivative_import_error [OF assms])

lemma first_fundamental_form_import_error:
  assumes "0 < ambient_dim" and "0 < sdim"
  shows "first_fundamental_form ambient_dim (Some sdim) dd
           = Inl (ImportError ''RefDiffOperator'')"
proof -
  have "map_err (\<lambda>j. forward_metric_derivative_vector ambient_dim j dd) [0..<nat sdim]
          = Inl (ImportError ''RefDiffOperator'')"
    using upt_nat_nonempty [OF assms(2)]
    by (intro map_err_head_raises)
       (simp_all add: derivative_vector_import_error [OF assms(1)])
  then show ?thesis
    using assms
    by (simp add: first_fundamental_form_def forward_metric_derivative_mat_def
          np_zeros_check_def)
qed

text \<open>
  C8. \<open>summed_curvature\<close> returns the constant zero when the ambient dimension is one
  and when the dimension of the discretization equals the ambient dimension. For a
  surface of dimension greater than two embedded in a space of higher dimension,
  \<open>second_fundamental_form\<close> and \<open>inverse_first_fundamental_form\<close> raise and compute no
  value, but the error is not the \<open>ValueError\<close> that surfaces of this dimension are
  not supported, which both functions contain: the metric derivatives are built first,
  and \<open>forward_metric_nth_derivative\<close> raises \<open>ImportError\<close> at its statement
  \<open>from grudge.symbolic.operators import RefDiffOperator\<close>, a name which that module
  does not define.
\<close>

theorem curvature_unsupported_import_error:
  "(ambient_dim = 1 \<or> ambient_dim = (case dim0 of None \<Rightarrow> ambient_dim - 1 | Some d' \<Rightarrow> d')
      \<longrightarrow> summed_curvature ga ambient_dim dim0 dd = Inr (Const 0))
   \<and> (2 < sdim \<and> sdim < ambient_dim
      \<longrightarrow> second_fundamental_form ga ambient_dim (Some sdim) dd
            = Inl (ImportError ''RefDiffOperator'')
          \<and> inverse_first_fundamental_form ga ambient_dim (Some sdim) dd
            = Inl (ImportError ''RefDiffOperator''))"
proof (intro conjI impI)
  assume "ambient_dim = 1 \<or> ambient_dim = (case dim0 of None \<Rightarrow> ambient_dim - 1 | Some d' \<Rightarrow> d')"
  then show "summed_curvature ga ambient_dim dim0 dd = Inr (Const 0)"
    by (auto simp: summed_curvature_def Let_def)
next
  assume a: "2 < sdim \<and> sdim < ambient_dim"
  then have p: "0 < ambient_dim" "0 < sdim"
    by simp_all
  show "second_fundamental_form ga ambient_dim (Some sdim) dd
          = Inl (ImportError ''RefDiffOperator'')"
    by (simp add: second_fundamental_form_def surface_normal_import_error [OF p])
next
  assume a: "2 < sdim \<and> sdim < ambient_dim"
  then have p: "0 < ambient_dim" "0 < sdim"
    by simp_all
  show "inverse_first_fundamental_form ga ambient_dim (Some sdim) dd
          = Inl (ImportError ''RefDiffOperator'')"
    using a
    by (simp add: inverse_first_fundamental_form_def first_fundamental_form_import_error [OF p])
qed

theorem curvature_unsupported_import_error_witness:
  "summed_curvature example_ga 4 (Some 4) (Some DD_VOLUME) = Inr (Const 0)
   \<and> summed_curvature example_ga 1 None (Some DD_VOLUME) = Inr (Const 0)
   \<and> (2::int) < 3 \<and> (3::int) < 4
   \<and> second_fundamental_form example_ga 4 (Some 3) None
       = Inl (ImportError ''RefDiffOperator'')
   \<and> inverse_first_fundamental_form example_ga 4 (Some 3) None
       = Inl (ImportError ''RefDiffOperator'')
   \<and> inverse_first_fundamental_form example_ga 4 (Some 3) None
       \<noteq> Inl (ValueError ''3D surfaces not supported'')"
  using curvature_unsupported_import_error [of 4 "Some 4" example_ga "Some DD_VOLUME" 3]
    curvature_unsupported_import_error [of 1 None example_ga "Some DD_VOLUME" 3]
    curvature_unsupported_import_error [of 4 "Some 4" example_ga None 3]
  by simp

text \<open>
  C7. For a trace descriptor and dimension zero the parametrization derivative, and
  with it the pseudoscalar that the normal is computed from, is the scalar multivector
  of \<open>_SignedFaceOnes\<close>: no derivative of a coordinate and no product enters it. Its
  value is \<open>+1\<close> at a degree of freedom whose face number is even and \<open>-1\<close> where it is
  odd. The constructor of \<open>_SignedFaceOnes\<close> fails its assertion on a descriptor that
  is not a trace, and so does the parametrization derivative.
\<close>

theorem parametrization_derivative_point_trace:
  "(is_trace dd
      \<longrightarrow> parametrization_derivative ambient_dim (Some 0) (Some dd)
            = Inr (ScalarMultiVector (SignedFaceOnes dd) ambient_dim)
          \<and> pseudoscalar ambient_dim (Some 0) (Some dd)
            = Inr (ProjectMaxGrade (ScalarMultiVector (SignedFaceOnes dd) ambient_dim)))
   \<and> length (map_signed_face_ones face_numbers) = length face_numbers
   \<and> (\<forall>i<length face_numbers.
         map_signed_face_ones face_numbers ! i = (if even (face_numbers ! i) then 1 else - 1))
   \<and> (as_dofdesc arg = Inr dd' \<and> \<not> is_trace dd'
      \<longrightarrow> SignedFaceOnes_init arg = Inl AssertionError)
   \<and> (\<not> is_trace dd
      \<longrightarrow> parametrization_derivative ambient_dim (Some 0) (Some dd) = Inl AssertionError)"
  by (simp add: parametrization_derivative_def pseudoscalar_def SignedFaceOnes_init_def
        dd_arg_of_def as_dofdesc_def map_signed_face_ones_def)

theorem parametrization_derivative_point_trace_witness:
  "is_trace example_face_dd
   \<and> parametrization_derivative 1 (Some 0) (Some example_face_dd)
       = Inr (ScalarMultiVector (SignedFaceOnes example_face_dd) 1)
   \<and> map_signed_face_ones [0, 1, 2, 3] = [1, - 1, 1, - 1]
   \<and> as_dofdesc (OfName ''vol'') = Inr DD_VOLUME \<and> \<not> is_trace DD_VOLUME
   \<and> SignedFaceOnes_init (OfName ''vol'') = Inl AssertionError
   \<and> parametrization_derivative 1 (Some 0) (Some DD_VOLUME) = Inl AssertionError"
proof -
  have t: "is_trace example_face_dd" "\<not> is_trace DD_VOLUME"
    by (simp_all add: is_trace_def example_face_dd_def DD_VOLUME_def)
  have a: "as_dofdesc (OfName ''vol'') = Inr DD_VOLUME"
    by (simp add: as_dofdesc_def DD_VOLUME_def)
  have m: "map_signed_face_ones [0, 1, 2, 3] = [1, - 1, 1, - 1]"
    by (simp add: map_signed_face_ones_def)
  show ?thesis
    using t a m
      parametrization_derivative_point_trace
        [of example_face_dd 1 "[0, 1, 2, 3]" "OfName ''vol''" DD_VOLUME]
      parametrization_derivative_point_trace
        [of DD_VOLUME 1 "[0, 1, 2, 3]" "OfName ''vol''" DD_VOLUME]
    by simp
qed

declare powr_numeral [simp del] numeral_powr_numeral_real [simp del]

lemma rhe_of_int: "rhe (of_int k) = k"
  by (simp add: rhe_def)

lemma rhe_ge_floor: "\<lfloor>m\<rfloor> \<le> rhe m"
  by (simp add: rhe_def Let_def)

lemma rhe_le_floor: "rhe m \<le> \<lfloor>m\<rfloor> + 1"
  by (simp add: rhe_def Let_def)

lemma rhe_lower: "of_int k \<le> m \<Longrightarrow> k \<le> rhe m"
proof -
  assume "of_int k \<le> m"
  then have "k \<le> \<lfloor>m\<rfloor>" by (simp add: le_floor_iff)
  then show ?thesis using rhe_ge_floor [of m] by linarith
qed

lemma rhe_upper: "of_int (rhe m) \<le> m + 1"
proof -
  have "of_int (rhe m) \<le> (of_int (\<lfloor>m\<rfloor> + 1) :: real)"
    using rhe_le_floor [of m] by (simp only: of_int_le_iff)
  also have "\<dots> \<le> m + 1"
    by simp
  finally show ?thesis .
qed

lemma rhe_small: "\<bar>m\<bar> < 1/2 \<Longrightarrow> rhe m = 0"
proof (cases "0 \<le> m")
  case True
  assume "\<bar>m\<bar> < 1/2"
  then have "\<lfloor>m\<rfloor> = 0" using True by (simp add: floor_eq_iff)
  then show ?thesis using \<open>\<bar>m\<bar> < 1/2\<close> True by (simp add: rhe_def)
next
  case False
  assume "\<bar>m\<bar> < 1/2"
  then have "\<lfloor>m\<rfloor> = - 1" using False by (simp add: floor_eq_iff)
  then show ?thesis using \<open>\<bar>m\<bar> < 1/2\<close> False by (simp add: rhe_def)
qed

lemma rhe_minus: "rhe (- m) = - rhe m"
proof (cases "m = of_int \<lfloor>m\<rfloor>")
  case True
  then obtain k where k: "m = of_int k" by blast
  have "rhe (of_int (- k)) = - rhe (of_int k)"
    by (simp only: rhe_of_int)
  then show ?thesis using k by simp
next
  case False
  then have f: "\<lfloor>- m\<rfloor> = - \<lfloor>m\<rfloor> - 1"
    by (simp add: floor_eq_iff) linarith
  show ?thesis
    unfolding rhe_def Let_def f
    by (simp; linarith?)
qed

lemma floor_log2_bounds:
  assumes "r \<noteq> 0"
  shows "2 powr of_int \<lfloor>log 2 \<bar>r\<bar>\<rfloor> \<le> \<bar>r\<bar>"
    and "\<bar>r\<bar> < 2 powr of_int (\<lfloor>log 2 \<bar>r\<bar>\<rfloor> + 1)"
  using floor_log_eq_powr_iff [of "\<bar>r\<bar>" 2 "\<lfloor>log 2 \<bar>r\<bar>\<rfloor>"] assms
  by simp_all

lemma ulp_pos: "0 < ulp r"
  by (simp add: ulp_def)

lemma expo_ge: "- 1022 \<le> expo r"
  by (simp add: expo_def)

lemma ulp_ge: "2 powr (- 1074) \<le> ulp r"
  unfolding ulp_def using expo_ge [of r] by (intro powr_mono) simp_all

lemma expo_minus: "expo (- r) = expo r"
  by (simp add: expo_def)

lemma ulp_minus: "ulp (- r) = ulp r"
  by (simp add: ulp_def expo_minus)

lemma expo_subnormal:
  assumes "r \<noteq> 0" and "\<bar>r\<bar> < 2 powr (- 1022)"
  shows "expo r = - 1022"
proof -
  have "(2::real) powr of_int \<lfloor>log 2 \<bar>r\<bar>\<rfloor> < 2 powr (- 1022)"
    using floor_log2_bounds(1) [OF assms(1)] assms(2) by linarith
  then have "of_int \<lfloor>log 2 \<bar>r\<bar>\<rfloor> < (- 1022 :: real)"
    by simp
  then have "\<lfloor>log 2 \<bar>r\<bar>\<rfloor> < - 1022"
    by linarith
  then show ?thesis
    by (simp add: expo_def)
qed

lemma ulp_subnormal:
  assumes "r \<noteq> 0" and "\<bar>r\<bar> < 2 powr (- 1022)"
  shows "ulp r = 2 powr (- 1074)"
  by (simp add: ulp_def expo_subnormal [OF assms])

lemma expo_normal:
  assumes "2 powr (- 1022) \<le> \<bar>r\<bar>"
  shows "expo r = \<lfloor>log 2 \<bar>r\<bar>\<rfloor>"
proof -
  have "0 < (2::real) powr (- 1022)"
    by simp
  then have r: "r \<noteq> 0"
    using assms by auto
  have "(2::real) powr (- 1022) < 2 powr of_int (\<lfloor>log 2 \<bar>r\<bar>\<rfloor> + 1)"
    using floor_log2_bounds(2) [OF r] assms by linarith
  then have "(- 1022 :: real) < of_int (\<lfloor>log 2 \<bar>r\<bar>\<rfloor> + 1)"
    by simp
  then have "- 1022 \<le> \<lfloor>log 2 \<bar>r\<bar>\<rfloor>"
    by linarith
  then show ?thesis
    by (simp add: expo_def)
qed

lemma ulp_le_abs:
  assumes "2 powr (- 1074) \<le> \<bar>r\<bar>"
  shows "ulp r \<le> \<bar>r\<bar>"
proof (cases "\<bar>r\<bar> < 2 powr (- 1022)")
  case True
  have "0 < (2::real) powr (- 1074)"
    by simp
  then have "r \<noteq> 0"
    using assms by auto
  then show ?thesis using ulp_subnormal [OF _ True] assms by simp
next
  case False
  then have n: "2 powr (- 1022) \<le> \<bar>r\<bar>" by simp
  have "0 < (2::real) powr (- 1022)"
    by simp
  then have r: "r \<noteq> 0"
    using n by auto
  have "ulp r = 2 powr (of_int \<lfloor>log 2 \<bar>r\<bar>\<rfloor> - 52)"
    by (simp add: ulp_def expo_normal [OF n])
  also have "\<dots> \<le> 2 powr of_int \<lfloor>log 2 \<bar>r\<bar>\<rfloor>"
    by (intro powr_mono) simp_all
  also have "\<dots> \<le> \<bar>r\<bar>"
    by (rule floor_log2_bounds(1) [OF r])
  finally show ?thesis .
qed

lemma rhe_abs_le: "\<bar>of_int (rhe m)\<bar> \<le> \<bar>m\<bar> + 1"
proof -
  have "m - 1 \<le> of_int \<lfloor>m\<rfloor>"
    by linarith
  moreover have "(of_int \<lfloor>m\<rfloor> :: real) \<le> of_int (rhe m)"
    using rhe_ge_floor [of m] by (simp only: of_int_le_iff)
  ultimately show ?thesis
    using rhe_upper [of m] by linarith
qed

lemma rnd_zero: "rnd 0 = Finite 0"
  by (simp add: rnd_def)

lemma rnd_minus: "rnd (- r) = fneg (rnd r)"
  by (simp add: rnd_def ulp_minus rhe_minus fneg_def Let_def)

lemma rnd_nonneg:
  assumes "0 \<le> r"
  shows "rnd r = PInf \<or> (\<exists>v. 0 \<le> v \<and> rnd r = Finite v)"
proof (cases "r = 0")
  case True
  then show ?thesis by (simp add: rnd_zero)
next
  case False
  have "0 \<le> r / ulp r"
    using assms ulp_pos [of r] by simp
  then have "0 \<le> rhe (r / ulp r)"
    using rhe_lower [of 0 "r / ulp r"] by simp
  then have "0 \<le> of_int (rhe (r / ulp r)) * ulp r"
    using ulp_pos [of r] by simp
  then show ?thesis
    using False assms by (simp add: rnd_def Let_def)
qed

lemma rnd_pos:
  assumes "2 powr (- 1074) \<le> r"
  shows "rnd r = PInf \<or> (\<exists>v. 0 < v \<and> rnd r = Finite v)"
proof -
  have p: "0 < r"
    using assms powr_gt_zero [of 2 "- 1074"] by linarith
  have "ulp r \<le> r"
    using ulp_le_abs [of r] assms p by simp
  then have "1 \<le> r / ulp r"
    using ulp_pos [of r] by (simp add: pos_le_divide_eq)
  then have "1 \<le> rhe (r / ulp r)"
    using rhe_lower [of 1 "r / ulp r"] by simp
  then have "0 < of_int (rhe (r / ulp r)) * ulp r"
    using ulp_pos [of r] by simp
  then show ?thesis
    using p by (simp add: rnd_def Let_def)
qed

lemma rnd_finite_pos:
  assumes "0 < r" and "rnd r = Finite a" and "a \<noteq> 0"
  shows "2 powr (- 1074) \<le> a"
proof -
  have a: "a = of_int (rhe (r / ulp r)) * ulp r"
    using assms(1,2) by (simp add: rnd_def Let_def split: if_splits)
  have "0 \<le> r / ulp r"
    using assms(1) ulp_pos [of r] by simp
  then have "0 \<le> rhe (r / ulp r)"
    using rhe_lower [of 0 "r / ulp r"] by simp
  moreover have "rhe (r / ulp r) \<noteq> 0"
    using a assms(3) by auto
  ultimately have "1 \<le> rhe (r / ulp r)"
    by linarith
  then have "(1::real) \<le> of_int (rhe (r / ulp r))"
    by simp
  then have "ulp r \<le> of_int (rhe (r / ulp r)) * ulp r"
    using ulp_pos [of r] by (simp add: mult_le_cancel_right1)
  then show ?thesis
    using a ulp_ge [of r] by linarith
qed

lemma pow_1024: "(2::real) ^ 1024 = 2 powr 1024"
  by (simp add: powr_numeral)

lemma rnd_unfold:
  "r \<noteq> 0 \<Longrightarrow>
   rnd r = (if 2 powr 1024 \<le> \<bar>of_int (rhe (r / ulp r)) * ulp r\<bar>
            then (if 0 < r then PInf else NInf)
            else Finite (of_int (rhe (r / ulp r)) * ulp r))"
  unfolding rnd_def Let_def pow_1024 by (simp only: if_False)

lemma rnd_overflow:
  assumes "2 powr 1024 \<le> r"
  shows "rnd r = PInf"
proof -
  have p: "0 < r"
    using assms powr_gt_zero [of 2 1024] by linarith
  have n: "(2::real) powr (- 1022) \<le> \<bar>r\<bar>"
  proof -
    have "(2::real) powr (- 1022) \<le> 2 powr 1024"
      by (intro powr_mono) simp_all
    then show ?thesis using assms by linarith
  qed
  define E where "E = \<lfloor>log 2 \<bar>r\<bar>\<rfloor>"
  have e: "expo r = E"
    unfolding E_def by (rule expo_normal [OF n])
  have lo: "2 powr of_int E \<le> r"
    using floor_log2_bounds(1) [of r] p by (simp add: E_def)
  have "r < 2 powr of_int (E + 1)"
    using floor_log2_bounds(2) [of r] p by (simp add: E_def)
  then have "(2::real) powr 1024 < 2 powr of_int (E + 1)"
    using assms by linarith
  then have "(1024::real) < of_int (E + 1)"
    by (rule powr_less_cancel) simp
  then have E: "1024 \<le> E"
    by linarith
  have u: "ulp r = 2 powr (of_int E - 52)"
    by (simp add: ulp_def e)
  have pu: "2 powr 52 * ulp r = 2 powr of_int E"
    by (simp only: u powr_add [symmetric]) simp
  have m: "2 powr 52 \<le> r / ulp r"
    using lo ulp_pos [of r] pu by (simp add: pos_le_divide_eq)
  have i: "(2::real) powr 52 = of_int (2 ^ 52)"
    by (simp add: powr_numeral)
  have "2 ^ 52 \<le> rhe (r / ulp r)"
    by (rule rhe_lower) (use m i in linarith)
  then have "(of_int (2 ^ 52) :: real) \<le> of_int (rhe (r / ulp r))"
    by (simp only: of_int_le_iff)
  then have "2 powr 52 \<le> (of_int (rhe (r / ulp r)) :: real)"
    using i by linarith
  then have "2 powr 52 * ulp r \<le> of_int (rhe (r / ulp r)) * ulp r"
    using ulp_pos [of r] by (simp)
  moreover have "(2::real) powr 1024 \<le> 2 powr of_int E"
    using E by (intro powr_mono) simp_all
  ultimately have "2 powr 1024 \<le> \<bar>of_int (rhe (r / ulp r)) * ulp r\<bar>"
    using pu by linarith
  then show ?thesis
    using p by (simp add: rnd_unfold)
qed

lemma rnd_small_finite:
  assumes "\<bar>r\<bar> \<le> 1"
  shows "\<exists>c. rnd r = Finite c"
proof (cases "r = 0")
  case True
  then show ?thesis by (simp add: rnd_zero)
next
  case False
  have "log 2 \<bar>r\<bar> \<le> 0"
    using assms False by simp
  then have "\<lfloor>log 2 \<bar>r\<bar>\<rfloor> \<le> 0"
    by (simp add: floor_le_iff)
  then have "expo r \<le> 0"
    by (simp add: expo_def)
  then have "ulp r \<le> 2 powr 0"
    unfolding ulp_def by (intro powr_mono) simp_all
  then have u: "ulp r \<le> 1"
    by simp
  have "\<bar>of_int (rhe (r / ulp r)) * ulp r\<bar> \<le> (\<bar>r / ulp r\<bar> + 1) * ulp r"
    using rhe_abs_le [of "r / ulp r"] ulp_pos [of r]
    by (simp add: abs_mult mult_right_mono)
  also have "\<dots> = \<bar>r\<bar> + ulp r"
    using ulp_pos [of r] by (simp add: field_simps)
  also have "\<dots> \<le> 2"
    using assms u by linarith
  also have "\<dots> < 2 powr 1024"
  proof -
    have "(2::real) powr 1 < 2 powr 1024"
      by (intro powr_less_mono) simp_all
    then show ?thesis by (simp)
  qed
  finally show ?thesis
    using False by (simp add: rnd_unfold)
qed

lemma rnd_subnormal:
  assumes "r \<noteq> 0" and "\<bar>r\<bar> < 2 powr (- 1022)"
  shows "rnd r = Finite (of_int (rhe (r / 2 powr (- 1074))) * 2 powr (- 1074))"
proof -
  have u: "ulp r = 2 powr (- 1074)"
    by (rule ulp_subnormal [OF assms])
  have "\<bar>of_int (rhe (r / ulp r)) * ulp r\<bar> \<le> (\<bar>r / ulp r\<bar> + 1) * ulp r"
    using rhe_abs_le [of "r / ulp r"] ulp_pos [of r]
    by (simp add: abs_mult mult_right_mono)
  also have "\<dots> = \<bar>r\<bar> + ulp r"
    using ulp_pos [of r] by (simp add: field_simps)
  also have "\<dots> < 2 powr (- 1022) + 2 powr (- 1074)"
    using assms(2) u by linarith
  also have "\<dots> \<le> 2 powr 0 + 2 powr 0"
    by (intro add_mono powr_mono) simp_all
  also have "\<dots> < 2 powr 1024"
  proof -
    have "(2::real) powr 1 < 2 powr 1024"
      by (intro powr_less_mono) simp_all
    then show ?thesis by (simp)
  qed
  finally show ?thesis
    using assms(1) by (simp add: rnd_unfold u)
qed

lemma rnd_underflow:
  assumes "\<bar>r\<bar> < 2 powr (- 1075)"
  shows "rnd r = Finite 0"
proof (cases "r = 0")
  case True
  then show ?thesis by (simp add: rnd_zero)
next
  case False
  have "(2::real) powr (- 1075) \<le> 2 powr (- 1022)"
    by (intro powr_mono) simp_all
  then have s: "\<bar>r\<bar> < 2 powr (- 1022)"
    using assms by linarith
  have "\<bar>r / 2 powr (- 1074)\<bar> = \<bar>r\<bar> * 2 powr 1074"
    by (simp add: powr_minus abs_mult field_simps)
  also have "\<dots> < 2 powr (- 1075) * 2 powr 1074"
    using assms by (simp)
  also have "\<dots> = 1 / 2"
    by (simp flip: powr_add)
  finally have "rhe (r / 2 powr (- 1074)) = 0"
    by (rule rhe_small)
  then show ?thesis
    using rnd_subnormal [OF False s] by (simp)
qed

lemma less_powr_1024:
  assumes "(a::real) \<le> 1024"
  shows "x < 2 powr a \<Longrightarrow> x < 2 powr 1024"
proof -
  assume "x < 2 powr a"
  moreover have "(2::real) powr a \<le> 2 powr 1024"
    using assms by (intro powr_mono) simp_all
  ultimately show ?thesis by linarith
qed

lemma rnd_exactI:
  assumes "r \<noteq> 0" and "r / ulp r = of_int k" and "\<bar>r\<bar> < 2 powr 1024"
  shows "rnd r = Finite r"
proof -
  have "of_int (rhe (r / ulp r)) = r / ulp r"
    by (simp only: assms(2) rhe_of_int)
  then have "of_int (rhe (r / ulp r)) * ulp r = r"
    using ulp_pos [of r] by simp
  then show ?thesis
    using assms(3) rnd_unfold [OF assms(1)] by simp
qed

lemma is_double_int:
  assumes "is_double x" and "x \<noteq> 0"
  shows "\<exists>k. x / ulp x = of_int k"
proof -
  have "rnd x = Finite x"
    using assms(1) by (simp add: is_double_def)
  then have "of_int (rhe (x / ulp x)) * ulp x = x"
    by (simp only: rnd_unfold [OF assms(2)] split: if_splits) simp_all
  then have "x / ulp x = of_int (rhe (x / ulp x))"
    using ulp_pos [of x] by (simp add: field_simps)
  then show ?thesis ..
qed

lemma is_double_bound:
  assumes "is_double x"
  shows "\<bar>x\<bar> < 2 powr 1024"
proof (cases "x = 0")
  case True
  then show ?thesis by simp
next
  case False
  have "rnd x = Finite x"
    using assms(1) by (simp add: is_double_def)
  then have "of_int (rhe (x / ulp x)) * ulp x = x
             \<and> \<not> 2 powr 1024 \<le> \<bar>of_int (rhe (x / ulp x)) * ulp x\<bar>"
    by (simp only: rnd_unfold [OF False] split: if_splits) simp_all
  then have "\<not> 2 powr 1024 \<le> \<bar>x\<bar>"
    by metis
  then show ?thesis by linarith
qed

lemma expo_double:
  assumes "x \<noteq> 0"
  shows "expo (2 * x) = expo x \<or> expo (2 * x) = expo x + 1"
proof -
  have "log 2 \<bar>2 * x\<bar> = 1 + log 2 \<bar>x\<bar>"
    using assms by (simp add: abs_mult log_mult)
  then have "\<lfloor>log 2 \<bar>2 * x\<bar>\<rfloor> = 1 + \<lfloor>log 2 \<bar>x\<bar>\<rfloor>"
    by simp
  then show ?thesis
    unfolding expo_def by linarith
qed

lemma rnd_double:
  assumes "is_double x" and "\<bar>2 * x\<bar> < 2 powr 1024"
  shows "rnd (2 * x) = Finite (2 * x)"
proof (cases "x = 0")
  case True
  then show ?thesis by (simp add: rnd_zero)
next
  case False
  obtain k where k: "x / ulp x = of_int k"
    using is_double_int [OF assms(1) False] by blast
  from expo_double [OF False] show ?thesis
  proof
    assume "expo (2 * x) = expo x"
    then have "ulp (2 * x) = ulp x"
      by (simp add: ulp_def)
    then have "2 * x / ulp (2 * x) = of_int (2 * k)"
      using k by simp
    then show ?thesis
      using False assms(2) by (intro rnd_exactI [where k = "2 * k"]) simp_all
  next
    assume "expo (2 * x) = expo x + 1"
    then have "ulp (2 * x) = 2 powr (1 + (of_int (expo x) - 52))"
      by (simp add: ulp_def add.commute)
    then have "ulp (2 * x) = 2 * ulp x"
      by (simp only: powr_add ulp_def) simp
    then have "2 * x / ulp (2 * x) = of_int k"
      using k by simp
    then show ?thesis
      using False assms(2) by (intro rnd_exactI [where k = k]) simp_all
  qed
qed

lemma rnd_exact:
  assumes "m \<noteq> 0" and "\<bar>m\<bar> < 2 ^ 53" and "n \<le> 1074"
  shows "rnd (of_int m / 2 ^ n) = Finite (of_int m / 2 ^ n)"
proof -
  define r :: real where "r = of_int m / 2 ^ n"
  have r0: "r \<noteq> 0"
    using assms(1) by (simp add: r_def)
  have pn: "(2::real) ^ n = 2 powr of_nat n"
    by (simp add: powr_realpow)
  have "\<bar>of_int m :: real\<bar> < of_int (2 ^ 53)"
    using assms(2) by (simp only: of_int_abs [symmetric] of_int_less_iff)
  also have "(of_int (2 ^ 53) :: real) = 2 powr 53"
    by (simp add: powr_numeral)
  finally have am: "\<bar>of_int m :: real\<bar> < 2 powr 53" .
  have "\<bar>r\<bar> = \<bar>of_int m\<bar> * 2 powr (- of_nat n)"
    by (simp add: r_def pn abs_divide powr_minus field_simps)
  also have "\<dots> < 2 powr 53 * 2 powr (- of_nat n)"
    using am by (intro mult_strict_right_mono) simp_all
  also have "\<dots> = 2 powr (53 - real n)"
    by (simp only: powr_add [symmetric]) simp
  finally have ar: "\<bar>r\<bar> < 2 powr (53 - real n)" .
  have "2 powr of_int \<lfloor>log 2 \<bar>r\<bar>\<rfloor> < 2 powr (53 - real n)"
    using floor_log2_bounds(1) [OF r0] ar by linarith
  then have "of_int \<lfloor>log 2 \<bar>r\<bar>\<rfloor> < 53 - real n"
    by (rule powr_less_cancel) simp
  then have "\<lfloor>log 2 \<bar>r\<bar>\<rfloor> \<le> 52 - int n"
    by linarith
  then have e: "expo r \<le> 52 - int n"
    using assms(3) by (simp add: expo_def)
  define j where "j = nat (52 - int n - expo r)"
  have j: "real j = 52 - real n - of_int (expo r)"
    using e by (simp add: j_def)
  have "r / ulp r = of_int m * (2 powr (- real n) * 2 powr (52 - of_int (expo r)))"
    by (simp add: r_def pn ulp_def powr_minus powr_diff field_simps
         )
  also have "2 powr (- real n) * 2 powr (52 - of_int (expo r)) = (2::real) powr real j"
    by (simp only: powr_add [symmetric] j) (simp add: algebra_simps)
  also have "\<dots> = 2 ^ j"
    by (simp add: powr_realpow)
  finally have "r / ulp r = of_int (m * 2 ^ j)"
    by simp
  moreover have "\<bar>r\<bar> < 2 powr 1024"
    using ar by (rule less_powr_1024 [rotated]) simp
  ultimately have "rnd r = Finite r"
    using r0 by (intro rnd_exactI [where k = "m * 2 ^ j"]) simp_all
  then show ?thesis
    by (simp only: r_def)
qed

lemma rnd_1: "rnd 1 = Finite 1"
  using rnd_exact [of 1 0] by simp

lemma rnd_2: "rnd 2 = Finite 2"
  using rnd_exact [of 2 0] by simp

lemma fmul_finite_zero:
  assumes "\<bar>c\<bar> \<le> 1"
  shows "fmul (rnd c) (Finite 0) = Finite 0"
proof -
  obtain v where "rnd c = Finite v"
    using rnd_small_finite [OF assms] by blast
  then show ?thesis
    by (simp add: rnd_zero)
qed

lemma log_mean_series_at_zero:
  assumes "float_pow lib (Finite 0) 2 = Inr (Finite 0)"
    and "float_pow lib (Finite 0) 3 = Inr (Finite 0)"
  shows "bind_err (float_pow lib (Finite 0) 2)
           (\<lambda>p2. bind_err (float_pow lib (Finite 0) 3)
              (\<lambda>p3.
                 bind_err
                   (fdiv s
                      (fmul (Finite 2)
                         (fadd (fadd (fadd (Finite 1) (fmul (rnd (1 / 3)) (Finite 0)))
                                  (fmul (rnd (1 / 5)) p2))
                            (fmul (rnd (1 / 7)) p3))))
                   (\<lambda>r. Inr (PyFloat r))))
         = bind_err (fdiv s (Finite 2)) (\<lambda>r. Inr (PyFloat r))"
proof -
  have c: "fmul (rnd (1 / 3)) (Finite 0) = Finite 0"
    "fmul (rnd (1 / 5)) (Finite 0) = Finite 0"
    "fmul (rnd (1 / 7)) (Finite 0) = Finite 0"
    by (rule fmul_finite_zero, simp)+
  show ?thesis
    by (simp add: assms c rnd_1 rnd_2 Let_def)
qed

lemma powr_neg_pow: "(2::real) powr (- real n) = 1 / 2 ^ n"
  by (simp add: powr_minus powr_realpow inverse_eq_divide)

lemma rnd_underflow_pow:
  assumes "\<bar>r\<bar> < 1 / 2 ^ 1075"
  shows "rnd r = Finite 0"
proof -
  have "(2::real) powr (- 1075) = 1 / 2 ^ 1075"
    using powr_neg_pow [of 1075] by (simp del: power_numeral)
  then show ?thesis
    using assms by (intro rnd_underflow) (simp only:)
qed

lemma rnd_subnormal_pow:
  assumes "r \<noteq> 0" and "\<bar>r\<bar> < 1 / 2 ^ 1022"
  shows "rnd r = Finite (of_int (rhe (r * 2 ^ 1074)) / 2 ^ 1074)"
proof -
  have a: "(2::real) powr (- 1022) = 1 / 2 ^ 1022"
    using powr_neg_pow [of 1022] by (simp del: power_numeral)
  have b: "(2::real) powr (- 1074) = 1 / 2 ^ 1074"
    using powr_neg_pow [of 1074] by (simp del: power_numeral)
  have "\<bar>r\<bar> < 2 powr (- 1022)"
    using assms(2) by (simp only: a)
  then show ?thesis
    using rnd_subnormal [OF assms(1)] by (simp only: b) (simp del: power_numeral)
qed

lemma example_pow_zero:
  "float_pow example_numerics (Finite 0) 2 = Inr (Finite 0)"
  "float_pow example_numerics (Finite 0) 3 = Inr (Finite 0)"
  by (simp_all add: example_numerics_def numeral_2_eq_2 numeral_3_eq_3 rnd_zero)

lemma default_epsilon_pos: "flt (Finite 0) default_epsilon"
proof -
  have "(2::real) powr (- 1074) \<le> 2 powr (- 14)"
    by (intro powr_mono) simp_all
  also have "\<dots> \<le> 1 / 10000"
    using powr_neg_pow [of 14] by simp
  finally have "rnd (1 / 10000) = PInf \<or> (\<exists>v. 0 < v \<and> rnd (1 / 10000) = Finite v)"
    by (rule rnd_pos)
  moreover have "\<exists>c. rnd (1 / 10000) = Finite c"
    by (rule rnd_small_finite) simp
  ultimately show ?thesis
    by (auto simp: default_epsilon_def)
qed

lemma diag_underflow:
  "log_mean example_numerics (Finite (1 / 2 ^ 600)) (Finite (1 / 2 ^ 600)) default_epsilon
     = Inl ZeroDivisionError"
proof -
  have b1: "fmul (Finite 2) (Finite (1 / 2 ^ 600)) = Finite (1 / 2 ^ 599)"
    using rnd_exact [of 1 599] by simp
  have b2: "fsub (Finite (1 / 2 ^ 600)) (Finite (1 / 2 ^ 599)) = Finite (- 1 / 2 ^ 600)"
    using rnd_exact [of "- 1" 600] by (simp add: fsub_def fneg_def)
  have b3: "fmul (Finite (1 / 2 ^ 600)) (Finite (- 1 / 2 ^ 600)) = Finite 0"
    unfolding fmul.simps by (rule rnd_underflow_pow) simp
  have b4: "fmul (Finite (1 / 2 ^ 600)) (Finite (1 / 2 ^ 600)) = Finite 0"
    unfolding fmul.simps by (rule rnd_underflow_pow) simp
  have b5: "fadd (Finite 0) (Finite 0) = Finite 0"
    by (simp add: rnd_zero)
  have b6: "fadd (Finite (1 / 2 ^ 600)) (Finite (1 / 2 ^ 599)) = Finite (3 / 2 ^ 600)"
    using rnd_exact [of 3 600] by simp
  have b7: "fmul (Finite (1 / 2 ^ 600)) (Finite (3 / 2 ^ 600)) = Finite 0"
    unfolding fmul.simps by (rule rnd_underflow_pow) simp
  have b8: "fdiv (Finite 0) (Finite 0) = Inl ZeroDivisionError"
    by (simp add: fdiv_def)
  show ?thesis
    unfolding log_mean_def Let_def
    by (simp only: b1 b2 b3 b4 b5 b6 b7 b8 bind_err_Inl)
qed

lemma asym_xy:
  "log_mean example_numerics (Finite (1 / 2 ^ 538)) (Finite (5 / 2 ^ 541)) default_epsilon
     = Inr (PyFloat (Finite (13 / 2 ^ 542)))"
proof -
  have c1: "fmul (Finite 2) (Finite (5 / 2 ^ 541)) = Finite (5 / 2 ^ 540)"
    using rnd_exact [of 5 540] by simp
  have c2: "fsub (Finite (1 / 2 ^ 538)) (Finite (5 / 2 ^ 540)) = Finite (- 1 / 2 ^ 540)"
    using rnd_exact [of "- 1" 540] by (simp add: fsub_def fneg_def)
  have c3: "fmul (Finite (1 / 2 ^ 538)) (Finite (- 1 / 2 ^ 540)) = Finite 0"
    unfolding fmul.simps by (rule rnd_underflow_pow) simp
  have c4: "fmul (Finite (5 / 2 ^ 541)) (Finite (5 / 2 ^ 541)) = Finite 0"
    unfolding fmul.simps by (rule rnd_underflow_pow) simp
  have c5: "fadd (Finite 0) (Finite 0) = Finite 0"
    by (simp add: rnd_zero)
  have c6: "fadd (Finite (1 / 2 ^ 538)) (Finite (5 / 2 ^ 540)) = Finite (9 / 2 ^ 540)"
    using rnd_exact [of 9 540] by simp
  have "rhe (9 / 16) = 1"
    by (simp add: rhe_def)
  then have c7: "fmul (Finite (1 / 2 ^ 538)) (Finite (9 / 2 ^ 540)) = Finite (1 / 2 ^ 1074)"
    using rnd_subnormal_pow [of "1 / 2 ^ 538 * (9 / 2 ^ 540)"] by simp
  have c8: "fadd (Finite (1 / 2 ^ 1074)) (Finite 0) = Finite (1 / 2 ^ 1074)"
    using rnd_exact [of 1 1074] by simp
  have c9: "fdiv (Finite 0) (Finite (1 / 2 ^ 1074)) = Inr (Finite 0)"
    by (simp add: fdiv_def rnd_zero)
  have c10: "fadd (Finite (1 / 2 ^ 538)) (Finite (5 / 2 ^ 541)) = Finite (13 / 2 ^ 541)"
    using rnd_exact [of 13 541] by simp
  have c11: "fdiv (Finite (13 / 2 ^ 541)) (Finite 2) = Inr (Finite (13 / 2 ^ 542))"
    using rnd_exact [of 13 542] by (simp add: fdiv_def)
  show ?thesis
    unfolding log_mean_def Let_def
    by (simp only: c1 c2 c3 c4 c5 c6 c7 c8 c9 bind_err_Inr default_epsilon_pos if_True
          log_mean_series_at_zero [OF example_pow_zero] c10 c11)
qed

lemma asym_yx:
  "log_mean example_numerics (Finite (5 / 2 ^ 541)) (Finite (1 / 2 ^ 538)) default_epsilon
     = Inl ZeroDivisionError"
proof -
  have c1: "fmul (Finite 2) (Finite (1 / 2 ^ 538)) = Finite (1 / 2 ^ 537)"
    using rnd_exact [of 1 537] by simp
  have c2: "fsub (Finite (5 / 2 ^ 541)) (Finite (1 / 2 ^ 537)) = Finite (- 11 / 2 ^ 541)"
    using rnd_exact [of "- 11" 541] by (simp add: fsub_def fneg_def)
  have c3: "fmul (Finite (5 / 2 ^ 541)) (Finite (- 11 / 2 ^ 541)) = Finite 0"
    unfolding fmul.simps by (rule rnd_underflow_pow) simp
  have c4: "fmul (Finite (1 / 2 ^ 538)) (Finite (1 / 2 ^ 538)) = Finite 0"
    unfolding fmul.simps by (rule rnd_underflow_pow) simp
  have c5: "fadd (Finite 0) (Finite 0) = Finite 0"
    by (simp add: rnd_zero)
  have c6: "fadd (Finite (5 / 2 ^ 541)) (Finite (1 / 2 ^ 537)) = Finite (21 / 2 ^ 541)"
    using rnd_exact [of 21 541] by simp
  have c7: "fmul (Finite (5 / 2 ^ 541)) (Finite (21 / 2 ^ 541)) = Finite 0"
    unfolding fmul.simps by (rule rnd_underflow_pow) simp
  have c8: "fdiv (Finite 0) (Finite 0) = Inl ZeroDivisionError"
    by (simp add: fdiv_def)
  show ?thesis
    unfolding log_mean_def Let_def
    by (simp only: c1 c2 c3 c4 c5 c6 c7 c8 bind_err_Inl)
qed

lemma inputs_are_doubles:
  "is_double (1 / 2 ^ 600)" "is_double (1 / 2 ^ 538)" "is_double (5 / 2 ^ 541)"
  using rnd_exact [of 1 600] rnd_exact [of 1 538] rnd_exact [of 5 541]
  by (simp_all add: is_double_def)

text \<open>
  C9 (amended). On the diagonal \<open>log_mean\<close> returns its argument: for every strictly
  positive double \<open>x\<close> whose square, computed in double arithmetic, is finite and not
  zero (it neither overflows nor underflows to zero), and for every positive
  \<open>epsilon\<close>, \<open>log_mean(actx, x, x)\<close> returns exactly \<open>x\<close>, as a Python float, given
  that the \<open>pow\<close> of the C library maps zero to zero. Symmetry is not asserted: the two
  orders of the arguments round differently.
\<close>

theorem log_mean_diagonal:
  assumes "is_double x" and "0 < x"
    and "fmul (Finite x) (Finite x) = Finite a" and "a \<noteq> 0"
    and "flt (Finite 0) epsilon"
    and "float_pow lib (Finite 0) 2 = Inr (Finite 0)"
    and "float_pow lib (Finite 0) 3 = Inr (Finite 0)"
  shows "log_mean lib (Finite x) (Finite x) epsilon = Inr (PyFloat (Finite x))"
proof -
  have sq: "rnd (x * x) = Finite a"
    using assms(3) by simp
  have rx: "rnd x = Finite x"
    using assms(1) by (simp add: is_double_def)
  have xb: "x < 2 powr 512"
  proof (rule ccontr)
    assume "\<not> x < 2 powr 512"
    then have "2 powr 512 * 2 powr 512 \<le> x * x"
      using assms(2) by (intro mult_mono) simp_all
    then have "2 powr 1024 \<le> x * x"
      by (simp flip: powr_add)
    then show False
      using rnd_overflow [of "x * x"] sq by simp
  qed
  have "2 * x < 2 powr 1 * 2 powr 512"
    using xb by simp
  also have "\<dots> = 2 powr 513"
    by (simp only: powr_add [symmetric]) simp
  finally have "\<bar>2 * x\<bar> < 2 powr 1024"
    using assms(2) by (intro less_powr_1024 [where a = 513]) simp_all
  then have two: "rnd (2 * x) = Finite (2 * x)"
    by (rule rnd_double [OF assms(1)])
  have ab: "2 powr (- 1074) \<le> a"
    using assms(2,4) sq by (intro rnd_finite_pos [of "x * x"]) simp_all
  have num: "fadd (fmul (Finite x) (fsub (Finite x) (Finite (2 * x)))) (Finite a) = Finite 0"
  proof -
    have "fsub (Finite x) (Finite (2 * x)) = rnd (- x)"
      by (simp add: fsub_def fneg_def)
    also have "\<dots> = Finite (- x)"
      by (simp add: rnd_minus rx fneg_def)
    finally have "fmul (Finite x) (fsub (Finite x) (Finite (2 * x))) = rnd (- (x * x))"
      by simp
    also have "\<dots> = Finite (- a)"
      by (simp only: rnd_minus sq) (simp add: fneg_def)
    finally show ?thesis
      by (simp add: rnd_zero)
  qed
  define S where "S = fadd (Finite x) (Finite (2 * x))"
  define P where "P = fmul (Finite x) S"
  have den: "fadd P (Finite a) = PInf \<or> (\<exists>d. 0 < d \<and> fadd P (Finite a) = Finite d)"
  proof -
    have pos: "fadd (Finite w) (Finite a) = PInf
                 \<or> (\<exists>d. 0 < d \<and> fadd (Finite w) (Finite a) = Finite d)"
      if "0 \<le> w" for w
    proof -
      have "2 powr (- 1074) \<le> w + a"
        using ab that by linarith
      then show ?thesis
        using rnd_pos [of "w + a"] by simp
    qed
    have "S = rnd (x + 2 * x)"
      by (simp add: S_def)
    then consider "S = PInf" | v where "0 \<le> v" "S = Finite v"
      using rnd_nonneg [of "x + 2 * x"] assms(2) by auto
    then consider "P = PInf" | w where "0 \<le> w" "P = Finite w"
    proof cases
      case 1
      then have "P = PInf"
        using assms(2) by (simp add: P_def)
      then show ?thesis using that by blast
    next
      case 2
      then have "P = rnd (x * v)"
        by (simp add: P_def)
      moreover have "0 \<le> x * v"
        using assms(2) 2(1) by simp
      ultimately show ?thesis
        using rnd_nonneg [of "x * v"] that by auto
    qed
    then show ?thesis
    proof cases
      case 1
      then show ?thesis by simp
    next
      case 2
      then show ?thesis using pos [OF 2(1)] by simp
    qed
  qed
  have fs: "fdiv (fadd (fmul (Finite x) (fsub (Finite x) (Finite (2 * x)))) (Finite a))
              (fadd (fmul (Finite x) (fadd (Finite x) (Finite (2 * x)))) (Finite a))
            = Inr (Finite 0)"
    using den unfolding num P_def S_def by (auto simp: fdiv_def rnd_zero)
  have res: "fdiv (fadd (Finite x) (Finite x)) (Finite 2) = Inr (Finite x)"
  proof -
    have "fadd (Finite x) (Finite x) = Finite (2 * x)"
      using two by simp
    then show ?thesis
      by (simp add: fdiv_def rx)
  qed
  have two': "fmul (Finite 2) (Finite x) = Finite (2 * x)"
    using two by simp
  show ?thesis
    unfolding log_mean_def Let_def
    by (simp only: two' assms(3) fs bind_err_Inr assms(5) if_True
          log_mean_series_at_zero [OF assms(6,7)] res)
qed

theorem log_mean_diagonal_witness:
  "is_double 1 \<and> (0::real) < 1 \<and> fmul (Finite 1) (Finite 1) = Finite 1 \<and> (1::real) \<noteq> 0
   \<and> flt (Finite 0) default_epsilon
   \<and> float_pow example_numerics (Finite 0) 2 = Inr (Finite 0)
   \<and> float_pow example_numerics (Finite 0) 3 = Inr (Finite 0)
   \<and> log_mean example_numerics (Finite 1) (Finite 1) default_epsilon = Inr (PyFloat (Finite 1))"
proof -
  have d: "is_double 1"
    by (simp add: is_double_def rnd_1)
  have m: "fmul (Finite 1) (Finite 1) = Finite 1"
    by (simp add: rnd_1)
  show ?thesis
    using d m default_epsilon_pos example_pow_zero
      log_mean_diagonal [OF d _ m _ default_epsilon_pos example_pow_zero]
    by simp
qed

text \<open>
  C9, counterexample. The claim as stated fails on doubles. For \<open>x = 2 ^ - 600\<close> the
  three products underflow to zero, both the numerator and the denominator of
  \<open>f_squared\<close> are zero, and \<open>log_mean(actx, x, x)\<close> raises \<open>ZeroDivisionError\<close> instead
  of returning \<open>x\<close>. For \<open>x = 2 ^ - 538\<close> and \<open>y = 5 * 2 ^ - 541\<close>,
  \<open>log_mean(actx, x, y)\<close> returns \<open>13 * 2 ^ - 542\<close> while \<open>log_mean(actx, y, x)\<close> raises
  \<open>ZeroDivisionError\<close>: the denominator rounds to the least positive double in the
  first order and to zero in the second.
\<close>

theorem log_mean_counterexample:
  "is_double (1 / 2 ^ 600) \<and> (0::real) < 1 / 2 ^ 600
   \<and> log_mean example_numerics (Finite (1 / 2 ^ 600)) (Finite (1 / 2 ^ 600)) default_epsilon
       = Inl ZeroDivisionError
   \<and> is_double (1 / 2 ^ 538) \<and> (0::real) < 1 / 2 ^ 538
   \<and> is_double (5 / 2 ^ 541) \<and> (0::real) < 5 / 2 ^ 541
   \<and> log_mean example_numerics (Finite (1 / 2 ^ 538)) (Finite (5 / 2 ^ 541)) default_epsilon
       = Inr (PyFloat (Finite (13 / 2 ^ 542)))
   \<and> log_mean example_numerics (Finite (5 / 2 ^ 541)) (Finite (1 / 2 ^ 538)) default_epsilon
       = Inl ZeroDivisionError"
  by (simp only: inputs_are_doubles diag_underflow asym_xy asym_yx) simp

end
